theory Spec2Isabelle
  imports Main "HOL-Library.Sublist"
begin

section \<open>The SUUMO rental-listing scraper (suumo\_scraping.py)\<close>

text \<open>
  A shallow embedding of \<^verbatim>\<open>src/selfapp/my_suumo/suumo_scraping.py\<close>: the retrying page
  fetch, the two extractors, the merge, the exclusion filter, the spreadsheet sink and the
  pipeline that chains them. Everything the script does to the outside world (HTTP requests,
  sleeping, logging, saving the workbook) is recorded, in order, in a trace of events that
  every function receives and returns extended. What the outside world answers is read from
  an environment record, and every exception that a statement of the script can raise is a
  result of the function that holds the statement. The scheduling loop of \<^verbatim>\<open>main\<close> is not
  modelled.
\<close>

subsection \<open>Python strings\<close>

text \<open>
  A Python \<^verbatim>\<open>str\<close> is a sequence of Unicode code points; a code point is a natural number.
  \<open>str\<close> embeds an ASCII literal. The script's non-ASCII literals are written out by code
  point.
\<close>

type_synonym pystr = "nat list"

definition str :: "string \<Rightarrow> pystr" where
  "str s = map of_char s"

text \<open>\<^verbatim>\<open>str.isspace\<close> on one code point: the characters \<^verbatim>\<open>str.strip()\<close> removes.\<close>

definition isspace :: "nat \<Rightarrow> bool" where
  "isspace c \<longleftrightarrow>
     (9 \<le> c \<and> c \<le> 13) \<or> (28 \<le> c \<and> c \<le> 32) \<or> c = 133 \<or> c = 160 \<or> c = 5760 \<or>
     (8192 \<le> c \<and> c \<le> 8202) \<or> c = 8232 \<or> c = 8233 \<or> c = 8239 \<or> c = 8287 \<or> c = 12288"

text \<open>\<^verbatim>\<open>s.strip()\<close>: leading and trailing whitespace removed.\<close>

definition strip :: "pystr \<Rightarrow> pystr" where
  "strip s = rev (dropWhile isspace (rev (dropWhile isspace s)))"

text \<open>
  \<^verbatim>\<open>s.split(sep)\<close> for a non-empty separator: the pieces between the non-overlapping
  occurrences of \<open>sep\<close>, scanned from the left. \<open>acc\<close> is the current piece, reversed.
  (Python raises ValueError on an empty separator; the script's separator is one code point.)
\<close>

function split_from :: "pystr \<Rightarrow> pystr \<Rightarrow> pystr \<Rightarrow> pystr list" where
  "split_from sep acc [] = [rev acc]"
| "split_from sep acc (c # cs) =
     (if sep \<noteq> [] \<and> prefix sep (c # cs)
      then rev acc # split_from sep [] (drop (length sep) (c # cs))
      else split_from sep (c # acc) cs)"
  by pat_completeness auto
termination
  by (relation "measure (\<lambda>(sep, acc, s). length s)") auto

definition split :: "pystr \<Rightarrow> pystr \<Rightarrow> pystr list" where
  "split s sep = split_from sep [] s"

text \<open>\<^verbatim>\<open>sep.join(xs)\<close>.\<close>

fun join :: "pystr \<Rightarrow> pystr list \<Rightarrow> pystr" where
  "join sep [] = []"
| "join sep [x] = x"
| "join sep (x # y # ys) = x @ sep @ join sep (y # ys)"

text \<open>
  \<^verbatim>\<open>a in b\<close> on two strings is the contiguous-substring test, \<^term>\<open>sublist a b\<close> of the
  library.
\<close>

subsection \<open>The parsed document (BeautifulSoup)\<close>

text \<open>
  The tree that \<^verbatim>\<open>BeautifulSoup(html, "html.parser")\<close> builds: a tag has a name, its
  \<^verbatim>\<open>class\<close> attribute as the list of class names (bs4 keeps \<^verbatim>\<open>class\<close> multi-valued), its
  other attributes and its children. A leaf is a string: \<open>NavigableString\<close> is a string of
  the classes NavigableString and CData, which \<^verbatim>\<open>.text\<close> collects; \<open>Comment\<close> stands for a
  string of any class that \<^verbatim>\<open>.text\<close> skips (Comment, Declaration, Doctype,
  ProcessingInstruction, and the Script, Stylesheet and TemplateString contents of
  \<^verbatim>\<open>script\<close>, \<^verbatim>\<open>style\<close> and \<^verbatim>\<open>template\<close> tags). The soup object itself is the root
  tag.
\<close>

datatype node =
    Tag (tag_name: pystr) (classes: "pystr list") (attrs: "(pystr \<times> pystr) list")
      (contents: "node list")
  | NavigableString pystr
  | Comment pystr

text \<open>All descendants of a node, in document order (the order bs4 searches in).\<close>

fun descendants :: "node \<Rightarrow> node list"
  and descendants_list :: "node list \<Rightarrow> node list" where
  "descendants (NavigableString s) = []"
| "descendants (Comment s) = []"
| "descendants (Tag n cl at cs) = descendants_list cs"
| "descendants_list [] = []"
| "descendants_list (c # cs) = c # descendants c @ descendants_list cs"

text \<open>
  \<^verbatim>\<open>tag.text\<close>: the strings below the tag that are of the classes NavigableString and CData,
  concatenated; the other strings are skipped.
\<close>

fun get_text :: "node \<Rightarrow> pystr"
  and get_text_list :: "node list \<Rightarrow> pystr" where
  "get_text (NavigableString s) = s"
| "get_text (Comment s) = []"
| "get_text (Tag n cl at cs) = get_text_list cs"
| "get_text_list [] = []"
| "get_text_list (c # cs) = get_text c @ get_text_list cs"

text \<open>
  The filter of \<^verbatim>\<open>find\<close> and \<^verbatim>\<open>find_all\<close>: a tag of the given name and, when
  \<^verbatim>\<open>class_=\<close> is given, with that class among its classes.
\<close>

fun matches :: "pystr \<Rightarrow> pystr option \<Rightarrow> node \<Rightarrow> bool" where
  "matches name cls (NavigableString s) = False"
| "matches name cls (Comment s) = False"
| "matches name cls (Tag n cl at cs) =
     (n = name \<and> (case cls of None \<Rightarrow> True | Some c \<Rightarrow> c \<in> set cl))"

definition find_all :: "node \<Rightarrow> pystr \<Rightarrow> pystr option \<Rightarrow> node list" where
  "find_all tag name cls = filter (matches name cls) (descendants tag)"

text \<open>\<^verbatim>\<open>tag.find(...)\<close>: the first match, or \<^verbatim>\<open>None\<close>.\<close>

definition find_tag :: "node \<Rightarrow> pystr \<Rightarrow> pystr option \<Rightarrow> node option" where
  "find_tag tag name cls =
     (case find_all tag name cls of [] \<Rightarrow> None | t # _ \<Rightarrow> Some t)"

text \<open>\<^verbatim>\<open>tag[key]\<close>: the attribute's value; \<open>None\<close> stands for the KeyError.\<close>

fun get_attr :: "node \<Rightarrow> pystr \<Rightarrow> pystr option" where
  "get_attr (NavigableString s) key = None"
| "get_attr (Comment s) key = None"
| "get_attr (Tag n cl at cs) key = map_of at key"

text \<open>
  \<^verbatim>\<open>soup.select("table.data_table tr")\<close>: every \<^verbatim>\<open>tr\<close> tag that lies below a
  \<^verbatim>\<open>table\<close> tag of class \<^verbatim>\<open>data_table\<close>, in document order. \<open>inside\<close> tells whether
  such a table is among the ancestors.
\<close>

definition is_data_table :: "node \<Rightarrow> bool" where
  "is_data_table t = matches (str ''table'') (Some (str ''data_table'')) t"

fun select_rows :: "bool \<Rightarrow> node \<Rightarrow> node list"
  and select_rows_list :: "bool \<Rightarrow> node list \<Rightarrow> node list" where
  "select_rows inside (NavigableString s) = []"
| "select_rows inside (Comment s) = []"
| "select_rows inside (Tag n cl at cs) =
     (if inside \<and> n = str ''tr'' then [Tag n cl at cs] else []) @
     select_rows_list (inside \<or> is_data_table (Tag n cl at cs)) cs"
| "select_rows_list inside [] = []"
| "select_rows_list inside (c # cs) = select_rows inside c @ select_rows_list inside cs"

definition select_data_table_tr :: "node \<Rightarrow> node list" where
  "select_data_table_tr soup = select_rows_list False (contents soup)"

subsection \<open>Records, exceptions, events and the environment\<close>

text \<open>
  The script's dicts. \<open>property_info\<close> is the dict that \<^verbatim>\<open>parse_search_results\<close> builds,
  with the keys U+7269 U+4EF6 U+540D (property name), U+8CC3 U+6599 (rent), U+9593 U+53D6
  U+308A (layout), U+6700 U+5BC4 U+99C5 (nearest stations) and \<^verbatim>\<open>URL\<close>. \<open>details\<close> is the
  dict of \<^verbatim>\<open>parse_property_details\<close>, with the keys U+69CB U+9020 (structure) and
  U+6577 U+91D1 / U+793C U+91D1 (deposit / key money). \<open>listing\<close> is a \<open>property_info\<close>
  after \<^verbatim>\<open>property_info.update(details)\<close>: the five keys and the two of \<open>details\<close>.
\<close>

record property_info =
  bukken_mei :: pystr
  chinryo :: pystr
  madori :: pystr
  moyori_eki :: "pystr list"
  url :: pystr

record details =
  d_kozo :: pystr
  d_shikikin_reikin :: pystr

record listing = property_info +
  kozo :: pystr
  shikikin_reikin :: pystr

definition update :: "property_info \<Rightarrow> details \<Rightarrow> listing" where
  "update p d =
     \<lparr>bukken_mei = bukken_mei p, chinryo = chinryo p, madori = madori p,
      moyori_eki = moyori_eki p, url = url p,
      kozo = d_kozo d, shikikin_reikin = d_shikikin_reikin d\<rparr>"

text \<open>
  The exceptions of \<^verbatim>\<open>requests.exceptions.RequestException\<close> (the class
  \<^verbatim>\<open>fetch_page\<close> catches; \<^verbatim>\<open>raise_for_status\<close> raises its subclass HTTPError), and the other
  Python exceptions the script can meet: those of its own subscripts and attribute accesses,
  bs4's ParserRejectedMarkup and NotImplementedError, urllib3's LocationParseError,
  openpyxl's IllegalCharacterError, and the OSError of a failed write.
\<close>

datatype request_exception = ConnectionError | Timeout | HTTPError nat | Other_request_exception

datatype pyexn =
    AttributeError | IndexError | TypeError | KeyError | NotImplementedError | OSError
  | ParserRejectedMarkup | LocationParseError | IllegalCharacterError

text \<open>
  What \<^verbatim>\<open>requests.get\<close> does: it returns a response (status code, text), raises a
  RequestException, or raises an exception that is not a RequestException.
\<close>

datatype get_result = Response nat pystr | Raises request_exception | Raises_other pyexn

text \<open>
  How the \<^verbatim>\<open>try\<close> of \<^verbatim>\<open>fetch_page\<close> ends: with \<^verbatim>\<open>return response.text\<close>, in the handler
  of RequestException, or with an exception that the handler does not catch.
\<close>

datatype attempt_result =
    is_Returns: Returns pystr
  | is_Caught: Caught request_exception
  | is_Uncaught: Uncaught pyexn

datatype level = INFO | WARNING | ERROR

text \<open>The log lines of the script, one constructor per format string.\<close>

datatype message =
    Error_fetching pystr request_exception
  | Retrying_after nat
  | Failed_to_extract_property pyexn
  | Failed_to_parse_property_details pyexn
  | No_data_to_save
  | Saved_data_to pystr
  | Error_saving_Excel pyexn
  | Start_scraping
  | Failed_to_get_search_results
  | No_properties_found
  | Failed_to_fetch_detail pystr
  | Scraping_done

text \<open>
  The events of a run, in the order they happen: an HTTP GET of a URL, a
  \<^verbatim>\<open>time.sleep\<close> of so many seconds, a log line, the call of \<^verbatim>\<open>save_to_excel\<close> with
  its arguments (the hand-over to the sink), and \<^verbatim>\<open>workbook.save\<close> of a file name with
  the sheet's rows.
\<close>

datatype event =
    Get pystr
  | Sleep nat
  | Log level message
  | Call_save_to_excel "listing list" pystr
  | Workbook_save pystr "pystr list list"

type_synonym trace = "event list"

text \<open>
  The outside world. \<open>requests_get\<close> is the outcome of a GET of a URL after the events so
  far; \<open>html_parser\<close> is \<^verbatim>\<open>BeautifulSoup(html, "html.parser")\<close>, which returns the soup or
  raises (ParserRejectedMarkup on markup that the parser rejects); \<open>select_raises\<close> is the
  exception, if any, that bs4's \<^verbatim>\<open>select\<close> raises on a soup (it raises NotImplementedError
  when its CSS engine is not installed); \<open>workbook_save\<close> is the exception, if any, of
  \<^verbatim>\<open>workbook.save\<close> of a file name after the events so far.
\<close>

record env =
  requests_get :: "trace \<Rightarrow> pystr \<Rightarrow> get_result"
  html_parser :: "pystr \<Rightarrow> pyexn + node"
  select_raises :: "node \<Rightarrow> pyexn option"
  workbook_save :: "trace \<Rightarrow> pystr \<Rightarrow> pyexn option"

subsection \<open>Constants\<close>

definition BASE_URL :: pystr where
  "BASE_URL = str ''https://suumo.jp''"

definition SEARCH_URL :: pystr where
  "SEARCH_URL = str ''https://suumo.jp/jj/chintai/ichiran/FR301FC001/?...''"

definition MAX_RETRY :: nat where
  "MAX_RETRY = 3"

definition RETRY_INTERVAL :: nat where
  "RETRY_INTERVAL = 5"

text \<open>U+8CC3 U+8CB8 U+7269 U+4EF6 U+60C5 U+5831 followed by \<^verbatim>\<open>.xlsx\<close>.\<close>

definition OUTPUT_EXCEL_FILE :: pystr where
  "OUTPUT_EXCEL_FILE = [36035, 36024, 29289, 20214, 24773, 22577] @ str ''.xlsx''"

text \<open>U+60C5 U+5831 U+306A U+3057 (``no information''): the default of both detail fields.\<close>

definition JOHO_NASHI :: pystr where
  "JOHO_NASHI = [24773, 22577, 12394, 12375]"

text \<open>U+69CB U+9020 (``structure'') and U+6577 U+91D1 (``deposit''): the row keys looked for.\<close>

definition KOZO :: pystr where
  "KOZO = [27083, 36896]"

definition SHIKIKIN :: pystr where
  "SHIKIKIN = [25975, 37329]"

text \<open>U+6728 U+9020 (``wooden construction''): the structure the filter excludes.\<close>

definition MOKUZO :: pystr where
  "MOKUZO = [26408, 36896]"

text \<open>U+3001, the ideographic comma the station text is split on.\<close>

definition TOUTEN :: pystr where
  "TOUTEN = [12289]"

text \<open>The anchor's class: \<^verbatim>\<open>js-\<close> followed by U+7269 U+4EF6 U+6982 U+8981.\<close>

definition JS_BUKKEN_GAIYO :: pystr where
  "JS_BUKKEN_GAIYO = str ''js-'' @ [29289, 20214, 27010, 35201]"

subsection \<open>fetch\_page\<close>

text \<open>\<^verbatim>\<open>response.raise_for_status()\<close>: HTTPError for a status from 400 to 599.\<close>

definition raise_for_status :: "nat \<Rightarrow> request_exception option" where
  "raise_for_status status_code =
     (if 400 \<le> status_code \<and> status_code < 600 then Some (HTTPError status_code) else None)"

text \<open>
  The body of the \<^verbatim>\<open>try\<close> on what \<^verbatim>\<open>requests.get\<close> does: an exception that is not a
  RequestException is not caught; a RequestException is; on a response,
  \<^verbatim>\<open>raise_for_status\<close> raises or the response text is returned.
\<close>

definition try_result :: "get_result \<Rightarrow> attempt_result" where
  "try_result answer =
     (case answer of
        Raises_other ex \<Rightarrow> Uncaught ex
      | Raises ex \<Rightarrow> Caught ex
      | Response status_code text \<Rightarrow>
          (case raise_for_status status_code of Some ex \<Rightarrow> Caught ex | None \<Rightarrow> Returns text))"

text \<open>One attempt: the GET of the URL after the history \<open>tr\<close>, in the \<^verbatim>\<open>try\<close>.\<close>

definition attempt :: "env \<Rightarrow> pystr \<Rightarrow> trace \<Rightarrow> attempt_result" where
  "attempt e u tr = try_result (requests_get e tr u)"

text \<open>
  The loop \<^verbatim>\<open>for i in range(MAX_RETRY)\<close>, over the values of \<open>i\<close> still to come. The
  result is \<open>Inl\<close> the exception that leaves \<open>fetch_page\<close>, or \<open>Inr\<close> what it returns,
  where \<open>None\<close> is Python's \<^verbatim>\<open>None\<close>.
\<close>

fun fetch_loop ::
  "env \<Rightarrow> pystr \<Rightarrow> nat list \<Rightarrow> trace \<Rightarrow> (pyexn + pystr option) \<times> trace" where
  "fetch_loop e u [] tr = (Inr None, tr)"
| "fetch_loop e u (i # rest) tr =
     (case attempt e u tr of
        Returns text \<Rightarrow> (Inr (Some text), tr @ [Get u])
      | Uncaught ex \<Rightarrow> (Inl ex, tr @ [Get u])
      | Caught ex \<Rightarrow>
          (if i < MAX_RETRY - 1
           then fetch_loop e u rest
                  (tr @ [Get u, Log ERROR (Error_fetching u ex),
                         Log INFO (Retrying_after RETRY_INTERVAL), Sleep RETRY_INTERVAL])
           else fetch_loop e u rest (tr @ [Get u, Log ERROR (Error_fetching u ex)])))"

definition fetch_page :: "env \<Rightarrow> pystr \<Rightarrow> trace \<Rightarrow> (pyexn + pystr option) \<times> trace" where
  "fetch_page e u tr = fetch_loop e u [0..<MAX_RETRY] tr"

subsection \<open>parse\_search\_results\<close>

text \<open>
  The body of the \<^verbatim>\<open>try\<close> for one listing unit, statement by statement, with the exception
  each statement raises: \<^verbatim>\<open>.text\<close> on the \<^verbatim>\<open>None\<close> of a failed \<^verbatim>\<open>find\<close> is an
  AttributeError, \<^verbatim>\<open>[1]\<close> on a list of fewer than two tags an IndexError,
  \<^verbatim>\<open>["href"]\<close> on \<^verbatim>\<open>None\<close> a TypeError, and on a tag without that attribute a KeyError.
\<close>

definition extract_property :: "node \<Rightarrow> pyexn + property_info" where
  "extract_property property_unit =
     (case find_tag property_unit (str ''div'') (Some (str ''property_unit-title'')) of
        None \<Rightarrow> Inl AttributeError
      | Some title \<Rightarrow>
     (case find_tag property_unit (str ''span'') (Some (str ''price'')) of
        None \<Rightarrow> Inl AttributeError
      | Some price_tag \<Rightarrow>
     (case find_tag property_unit (str ''span'') (Some (str ''madori'')) of
        None \<Rightarrow> Inl AttributeError
      | Some madori_tag \<Rightarrow>
     (case find_tag property_unit (str ''div'') (Some (str ''property_unit-body'')) of
        None \<Rightarrow> Inl AttributeError
      | Some body \<Rightarrow>
     (case find_all body (str ''div'') None of
        [] \<Rightarrow> Inl IndexError
      | [d0] \<Rightarrow> Inl IndexError
      | d0 # d1 # _ \<Rightarrow>
     (let stations_info = strip (get_text d1);
          stations = map strip (split stations_info TOUTEN)
      in
     (case find_tag property_unit (str ''a'') (Some JS_BUKKEN_GAIYO) of
        None \<Rightarrow> Inl TypeError
      | Some a \<Rightarrow>
     (case get_attr a (str ''href'') of
        None \<Rightarrow> Inl KeyError
      | Some href \<Rightarrow>
          Inr \<lparr>bukken_mei = strip (get_text title),
               chinryo = strip (get_text price_tag),
               madori = strip (get_text madori_tag),
               moyori_eki = stations,
               url = BASE_URL @ href\<rparr>))))))))"

text \<open>
  The loop over the units. \<^verbatim>\<open>except AttributeError\<close> logs a warning and goes on with the
  next unit; any other exception leaves the function. So does an exception of
  \<^verbatim>\<open>BeautifulSoup(html, "html.parser")\<close>, which stands before the loop.
\<close>

fun properties_loop ::
  "node list \<Rightarrow> property_info list \<Rightarrow> trace \<Rightarrow> (pyexn + property_info list) \<times> trace" where
  "properties_loop [] data tr = (Inr data, tr)"
| "properties_loop (property_unit # rest) data tr =
     (case extract_property property_unit of
        Inr p \<Rightarrow> properties_loop rest (data @ [p]) tr
      | Inl ex \<Rightarrow>
          (if ex = AttributeError
           then properties_loop rest data (tr @ [Log WARNING (Failed_to_extract_property ex)])
           else (Inl ex, tr)))"

definition parse_search_results ::
  "env \<Rightarrow> pystr \<Rightarrow> trace \<Rightarrow> (pyexn + property_info list) \<times> trace" where
  "parse_search_results e html tr =
     (case html_parser e html of
        Inl ex \<Rightarrow> (Inl ex, tr)
      | Inr soup \<Rightarrow>
          (let properties = find_all soup (str ''div'') (Some (str ''property_unit-content''))
           in properties_loop properties [] tr))"

subsection \<open>parse\_property\_details\<close>

text \<open>The initial value of \<^verbatim>\<open>details\<close>: both fields hold the default.\<close>

definition initial_details :: details where
  "initial_details = \<lparr>d_kozo = JOHO_NASHI, d_shikikin_reikin = JOHO_NASHI\<rparr>"

text \<open>
  The loop over the rows. A row without a \<^verbatim>\<open>th\<close> or without a \<^verbatim>\<open>td\<close> is passed over
  (a bs4 tag is always truthy, so \<^verbatim>\<open>not header\<close> holds for \<^verbatim>\<open>None\<close> only); otherwise the
  key decides which field the value is stored in, the structure key first.
\<close>

fun rows_loop :: "node list \<Rightarrow> details \<Rightarrow> details" where
  "rows_loop [] d = d"
| "rows_loop (row # rest) d =
     (case find_tag row (str ''th'') None of
        None \<Rightarrow> rows_loop rest d
      | Some header \<Rightarrow>
     (case find_tag row (str ''td'') None of
        None \<Rightarrow> rows_loop rest d
      | Some val \<Rightarrow>
     (let key = strip (get_text header) in
      if sublist KOZO key then rows_loop rest (d\<lparr>d_kozo := strip (get_text val)\<rparr>)
      else if sublist SHIKIKIN key
      then rows_loop rest (d\<lparr>d_shikikin_reikin := strip (get_text val)\<rparr>)
      else rows_loop rest d)))"

text \<open>
  The body of the \<^verbatim>\<open>try\<close>: the exception it ends with, if any, and the value of
  \<^verbatim>\<open>details\<close> when it ends. Only \<^verbatim>\<open>select\<close> can raise, before any row is read.
\<close>

definition details_try :: "env \<Rightarrow> node \<Rightarrow> pyexn option \<times> details" where
  "details_try e soup =
     (case select_raises e soup of
        Some ex \<Rightarrow> (Some ex, initial_details)
      | None \<Rightarrow> (None, rows_loop (select_data_table_tr soup) initial_details))"

text \<open>
  \<^verbatim>\<open>BeautifulSoup(html, "html.parser")\<close> stands before the \<^verbatim>\<open>try\<close>: what it raises leaves
  the function. \<^verbatim>\<open>except Exception\<close> logs a warning; \<^verbatim>\<open>details\<close> is returned as it
  stands.
\<close>

definition parse_property_details ::
  "env \<Rightarrow> pystr \<Rightarrow> trace \<Rightarrow> (pyexn + details) \<times> trace" where
  "parse_property_details e html tr =
     (case html_parser e html of
        Inl ex \<Rightarrow> (Inl ex, tr)
      | Inr soup \<Rightarrow>
          (case details_try e soup of
             (Some ex, d) \<Rightarrow> (Inr d, tr @ [Log WARNING (Failed_to_parse_property_details ex)])
           | (None, d) \<Rightarrow> (Inr d, tr)))"

subsection \<open>save\_to\_excel\<close>

text \<open>
  The header row: the keys for name, rent, deposit / key money, structure, layout, nearest
  stations, and \<^verbatim>\<open>URL\<close>.
\<close>

definition header :: "pystr list" where
  "header =
     [[29289, 20214, 21517], [36035, 26009], [25975, 37329, 47, 31036, 37329], [27083, 36896],
      [38291, 21462, 12426], [26368, 23492, 39365], str ''URL'']"

definition row_of :: "listing \<Rightarrow> pystr list" where
  "row_of item =
     [bukken_mei item, chinryo item, shikikin_reikin item, kozo item, madori item,
      join (str '', '') (moyori_eki item), url item]"

text \<open>
  What openpyxl does with a string that becomes a cell: it keeps the first 32767 characters
  and raises IllegalCharacterError if a control character other than tab, line feed and
  carriage return is among them.
\<close>

definition illegal_character :: "nat \<Rightarrow> bool" where
  "illegal_character c \<longleftrightarrow> c \<le> 8 \<or> c = 11 \<or> c = 12 \<or> (14 \<le> c \<and> c \<le> 31)"

definition check_string :: "pystr \<Rightarrow> pyexn + pystr" where
  "check_string val =
     (let v = take 32767 val in
      if list_ex illegal_character v then Inl IllegalCharacterError else Inr v)"

text \<open>\<^verbatim>\<open>sheet.append(row)\<close>: the cells of the row, from the left.\<close>

fun sheet_append :: "pystr list \<Rightarrow> pyexn + pystr list" where
  "sheet_append [] = Inr []"
| "sheet_append (val # rest) =
     (case check_string val of
        Inl ex \<Rightarrow> Inl ex
      | Inr cell \<Rightarrow>
          (case sheet_append rest of Inl ex \<Rightarrow> Inl ex | Inr cells \<Rightarrow> Inr (cell # cells)))"

text \<open>The loop \<^verbatim>\<open>for item in data\<close>; \<open>sheet\<close> holds the rows appended so far.\<close>

fun append_items :: "listing list \<Rightarrow> pystr list list \<Rightarrow> pyexn + pystr list list" where
  "append_items [] sheet = Inr sheet"
| "append_items (item # rest) sheet =
     (case sheet_append (row_of item) of
        Inl ex \<Rightarrow> Inl ex
      | Inr cells \<Rightarrow> append_items rest (sheet @ [cells]))"

text \<open>
  The sink. The first event is the call itself. With no data it warns and returns. Otherwise
  it fills the sheet, where \<^verbatim>\<open>sheet.append\<close> stands outside the \<^verbatim>\<open>try\<close> and what it
  raises leaves the function, and saves the workbook, logging the outcome. The result is the
  exception that leaves the function, if any. (The header row holds no illegal character;
  cell fonts are not modelled.)
\<close>

definition save_to_excel ::
  "env \<Rightarrow> listing list \<Rightarrow> pystr \<Rightarrow> trace \<Rightarrow> pyexn option \<times> trace" where
  "save_to_excel e data filename tr =
     (let tr1 = tr @ [Call_save_to_excel data filename] in
      if data = [] then (None, tr1 @ [Log WARNING No_data_to_save])
      else
        (case append_items data [header] of
           Inl ex \<Rightarrow> (Some ex, tr1)
         | Inr sheet \<Rightarrow>
             (let tr2 = tr1 @ [Workbook_save filename sheet]
              in case workbook_save e tr1 filename of
                   None \<Rightarrow> (None, tr2 @ [Log INFO (Saved_data_to filename)])
                 | Some ex \<Rightarrow> (None, tr2 @ [Log ERROR (Error_saving_Excel ex)]))))"

subsection \<open>scrape\_and\_save\<close>

text \<open>
  The loop over \<^verbatim>\<open>property_list\<close>: the detail page is fetched; on \<^verbatim>\<open>None\<close> a warning is
  logged and the record is passed over; otherwise the details are parsed, merged into the
  record, and the record is appended to \<^verbatim>\<open>all_data\<close>. The loop has no handler: an
  exception of \<open>fetch_page\<close> or of \<open>parse_property_details\<close> leaves it.
\<close>

fun details_loop ::
  "env \<Rightarrow> property_info list \<Rightarrow> listing list \<Rightarrow> trace \<Rightarrow> (pyexn + listing list) \<times> trace"
  where
  "details_loop e [] all_data tr = (Inr all_data, tr)"
| "details_loop e (property_info # rest) all_data tr =
     (case fetch_page e (url property_info) tr of
        (Inl ex, tr1) \<Rightarrow> (Inl ex, tr1)
      | (Inr None, tr1) \<Rightarrow>
          details_loop e rest all_data
            (tr1 @ [Log WARNING (Failed_to_fetch_detail (url property_info))])
      | (Inr (Some detail_html), tr1) \<Rightarrow>
          (case parse_property_details e detail_html tr1 of
             (Inl ex, tr2) \<Rightarrow> (Inl ex, tr2)
           | (Inr d, tr2) \<Rightarrow> details_loop e rest (all_data @ [update property_info d]) tr2))"

text \<open>The filter: the records whose structure does not contain the excluded substring.\<close>

definition exclusion_filter :: "listing list \<Rightarrow> listing list" where
  "exclusion_filter all_data = filter (\<lambda>p. \<not> sublist MOKUZO (kozo p)) all_data"

text \<open>
  One run of the pipeline. The first component of the result is the exception that leaves
  \<^verbatim>\<open>scrape_and_save\<close>, if any: the function has no handler of its own, so what
  \<open>fetch_page\<close>, \<open>parse_search_results\<close>, the loop over the records or \<open>save_to_excel\<close>
  raises goes through.
\<close>

definition scrape_and_save :: "env \<Rightarrow> trace \<Rightarrow> pyexn option \<times> trace" where
  "scrape_and_save e tr =
     (case fetch_page e SEARCH_URL (tr @ [Log INFO Start_scraping]) of
        (Inl ex, tr1) \<Rightarrow> (Some ex, tr1)
      | (Inr None, tr1) \<Rightarrow> (None, tr1 @ [Log ERROR Failed_to_get_search_results])
      | (Inr (Some html), tr1) \<Rightarrow>
          (case parse_search_results e html tr1 of
             (Inl ex, tr2) \<Rightarrow> (Some ex, tr2)
           | (Inr property_list, tr2) \<Rightarrow>
               (if property_list = [] then (None, tr2 @ [Log WARNING No_properties_found])
                else
                  (case details_loop e property_list [] tr2 of
                     (Inl ex, tr3) \<Rightarrow> (Some ex, tr3)
                   | (Inr all_data, tr3) \<Rightarrow>
                       (let filtered_data = exclusion_filter all_data in
                        case save_to_excel e filtered_data OUTPUT_EXCEL_FILE tr3 of
                          (Some ex, tr4) \<Rightarrow> (Some ex, tr4)
                        | (None, tr4) \<Rightarrow> (None, tr4 @ [Log INFO Scraping_done]))))))"


subsection \<open>Reading a trace\<close>

fun is_get :: "event \<Rightarrow> bool" where
  "is_get (Get u) = True"
| "is_get ev = False"

fun is_sleep :: "event \<Rightarrow> bool" where
  "is_sleep (Sleep n) = True"
| "is_sleep ev = False"

text \<open>The URLs requested, the data handed to the sink, and the workbooks saved.\<close>

fun requests :: "event list \<Rightarrow> pystr list" where
  "requests [] = []"
| "requests (Get u # evs) = u # requests evs"
| "requests (ev # evs) = requests evs"

fun sink_calls :: "event list \<Rightarrow> listing list list" where
  "sink_calls [] = []"
| "sink_calls (Call_save_to_excel data filename # evs) = data # sink_calls evs"
| "sink_calls (ev # evs) = sink_calls evs"

fun saves :: "event list \<Rightarrow> (pystr \<times> pystr list list) list" where
  "saves [] = []"
| "saves (Workbook_save filename sheet # evs) = (filename, sheet) # saves evs"
| "saves (ev # evs) = saves evs"

text \<open>
  What \<^verbatim>\<open>requests.get\<close> answered to every request among the events \<open>evs\<close> that follow
  the history \<open>tr\<close>, and how the \<^verbatim>\<open>try\<close> of \<open>fetch_page\<close> ended on each of them.
\<close>

fun answers :: "env \<Rightarrow> trace \<Rightarrow> event list \<Rightarrow> get_result list" where
  "answers e tr [] = []"
| "answers e tr (Get u # evs) = requests_get e tr u # answers e (tr @ [Get u]) evs"
| "answers e tr (ev # evs) = answers e (tr @ [ev]) evs"

fun outcomes :: "env \<Rightarrow> trace \<Rightarrow> event list \<Rightarrow> attempt_result list" where
  "outcomes e tr [] = []"
| "outcomes e tr (Get u # evs) = attempt e u tr # outcomes e (tr @ [Get u]) evs"
| "outcomes e tr (ev # evs) = outcomes e (tr @ [ev]) evs"

text \<open>
  \<open>n\<close> requests of one URL with a sleep of \<open>RETRY_INTERVAL\<close> seconds between each two, and
  none after the last.
\<close>

fun retry_schedule :: "pystr \<Rightarrow> nat \<Rightarrow> event list" where
  "retry_schedule u 0 = []"
| "retry_schedule u (Suc 0) = [Get u]"
| "retry_schedule u (Suc (Suc n)) = Get u # Sleep RETRY_INTERVAL # retry_schedule u (Suc n)"

text \<open>What \<open>fetch_page\<close> returns and emits, as one predicate on the emitted events.\<close>

definition retry_discipline :: "env \<Rightarrow> pystr \<Rightarrow> trace \<Rightarrow> event list \<Rightarrow> bool" where
  "retry_discipline e u tr evs \<longleftrightarrow>
     (let os = outcomes e tr evs; r = fst (fetch_page e u tr) in
      1 \<le> length os \<and> length os \<le> MAX_RETRY \<and>
      filter (\<lambda>ev. is_get ev \<or> is_sleep ev) evs = retry_schedule u (length os) \<and>
      (\<forall>x \<in> set (butlast os). is_Caught x) \<and>
      (case last os of
         Returns text \<Rightarrow> r = Inr (Some text) \<and> last evs = Get u
       | Caught ex \<Rightarrow> r = Inr None \<and> length os = MAX_RETRY \<and> (\<forall>x \<in> set os. is_Caught x) \<and>
           last evs = Log ERROR (Error_fetching u ex)
       | Uncaught ex \<Rightarrow> r = Inl ex \<and> last evs = Get u))"

text \<open>
  The result for each record in a run of the loop of \<open>scrape_and_save\<close> that starts after
  the history \<open>tr\<close>, in the order of the records: \<open>None\<close> for a record whose detail fetch
  returned \<^verbatim>\<open>None\<close> (all attempts failed), otherwise the fetched page and the details
  parsed from it. The list ends where an exception leaves the loop.
\<close>

fun detail_results ::
  "env \<Rightarrow> property_info list \<Rightarrow> trace \<Rightarrow> (pystr \<times> details) option list" where
  "detail_results e [] tr = []"
| "detail_results e (p # ps) tr =
     (case fetch_page e (url p) tr of
        (Inl ex, tr1) \<Rightarrow> []
      | (Inr None, tr1) \<Rightarrow>
          None # detail_results e ps (tr1 @ [Log WARNING (Failed_to_fetch_detail (url p))])
      | (Inr (Some detail_html), tr1) \<Rightarrow>
          (case parse_property_details e detail_html tr1 of
             (Inl ex, tr2) \<Rightarrow> []
           | (Inr d, tr2) \<Rightarrow> Some (detail_html, d) # detail_results e ps tr2))"

text \<open>
  A record and its result: nothing when the fetch failed, otherwise the record with the
  details of the fetched page merged in.
\<close>

definition merged :: "property_info \<times> (pystr \<times> details) option \<Rightarrow> listing option" where
  "merged pr =
     (case snd pr of None \<Rightarrow> None | Some res \<Rightarrow> Some (update (fst pr) (snd res)))"

text \<open>
  A structure row: a row with a \<^verbatim>\<open>th\<close> and a \<^verbatim>\<open>td\<close> whose trimmed key text contains
  the structure key. Its value is the trimmed text of the \<^verbatim>\<open>td\<close>.
\<close>

definition is_structure_row :: "node \<Rightarrow> bool" where
  "is_structure_row row \<longleftrightarrow>
     (case find_tag row (str ''th'') None of
        None \<Rightarrow> False
      | Some header_cell \<Rightarrow>
          (case find_tag row (str ''td'') None of
             None \<Rightarrow> False
           | Some val \<Rightarrow> sublist KOZO (strip (get_text header_cell))))"

definition row_value :: "node \<Rightarrow> pystr" where
  "row_value row =
     (case find_tag row (str ''td'') None of None \<Rightarrow> [] | Some val \<Rightarrow> strip (get_text val))"

text \<open>
  A record is extracted from a listing unit: the extraction of the unit succeeds and gives
  the record's five summary fields, so the name, price and layout are the trimmed texts of
  the unit's title, price and layout elements and the URL is \<open>BASE_URL\<close> followed by the
  \<^verbatim>\<open>href\<close> of its detail link.
\<close>

definition extracted_from :: "node \<Rightarrow> listing \<Rightarrow> bool" where
  "extracted_from unit r \<longleftrightarrow>
     extract_property unit = Inr (property_info.truncate r) \<and>
     (\<exists>title. find_tag unit (str ''div'') (Some (str ''property_unit-title'')) = Some title \<and>
        bukken_mei r = strip (get_text title)) \<and>
     (\<exists>price_tag. find_tag unit (str ''span'') (Some (str ''price'')) = Some price_tag \<and>
        chinryo r = strip (get_text price_tag)) \<and>
     (\<exists>madori_tag. find_tag unit (str ''span'') (Some (str ''madori'')) = Some madori_tag \<and>
        madori r = strip (get_text madori_tag)) \<and>
     (\<exists>a href. find_tag unit (str ''a'') (Some JS_BUKKEN_GAIYO) = Some a \<and>
        get_attr a (str ''href'') = Some href \<and> url r = BASE_URL @ href)"


subsection \<open>An example site\<close>

text \<open>Building blocks of the example documents.\<close>

definition text_tag :: "pystr \<Rightarrow> pystr list \<Rightarrow> pystr \<Rightarrow> node" where
  "text_tag n cl s = Tag n cl [] [NavigableString s]"

definition unit_title :: "pystr \<Rightarrow> node" where
  "unit_title s = text_tag (str ''div'') [str ''property_unit-title''] s"

definition unit_body :: "pystr \<Rightarrow> pystr \<Rightarrow> pystr \<Rightarrow> node" where
  "unit_body p m st =
     Tag (str ''div'') [str ''property_unit-body''] []
       [Tag (str ''div'') [] []
          [text_tag (str ''span'') [str ''price''] p, text_tag (str ''span'') [str ''madori''] m],
        text_tag (str ''div'') [] st]"

definition unit_link :: "pystr \<Rightarrow> node" where
  "unit_link h = Tag (str ''a'') [JS_BUKKEN_GAIYO] [(str ''href'', h)] []"

definition listing_unit :: "node list \<Rightarrow> node" where
  "listing_unit cs = Tag (str ''div'') [str ''property_unit-content''] [] cs"

definition soup_of :: "node list \<Rightarrow> node" where
  "soup_of cs = Tag (str ''[document]'') [] [] cs"

definition data_row :: "pystr \<Rightarrow> pystr \<Rightarrow> node" where
  "data_row k v = Tag (str ''tr'') [] [] [text_tag (str ''th'') [] k, text_tag (str ''td'') [] v]"

definition data_table :: "node list \<Rightarrow> node" where
  "data_table rows = Tag (str ''table'') [str ''data_table''] [] rows"

text \<open>
  Four well-formed listing units, one without a title and one without the detail link. The
  third well-formed unit has the text U+60C5 U+5831 U+306A U+3057 as its title.
\<close>

definition unit_a :: node where
  "unit_a = listing_unit [unit_title (str '' Maison A ''),
      unit_body (str ''8.5'') (str ''1LDK'') (str ''Shibuya 5'' @ TOUTEN @ str '' Ebisu 9''),
      unit_link (str ''/a'')]"

definition unit_b :: node where
  "unit_b = listing_unit [unit_title (str ''Maison B''),
      unit_body (str ''7'') (str ''1K'') (str ''Meguro 3''),
      unit_link (str ''/b'')]"

definition unit_c :: node where
  "unit_c = listing_unit [unit_title JOHO_NASHI,
      unit_body (str ''12'') (str ''2LDK'') (str ''Ueno 7''),
      unit_link (str ''/c'')]"

definition unit_d :: node where
  "unit_d = listing_unit [unit_title (str ''Maison D''),
      unit_body (str ''9'') (str ''1DK'') (str ''Ueno 7''),
      unit_link (str ''/d'')]"

definition unit_no_title :: node where
  "unit_no_title = listing_unit [unit_body (str ''7'') (str ''1K'') (str ''Meguro 3''),
      unit_link (str ''/x'')]"

definition unit_no_link :: node where
  "unit_no_link = listing_unit [unit_title (str ''Maison N''),
      unit_body (str ''7'') (str ''1K'') (str ''Meguro 3'')]"

text \<open>The records of the four well-formed units.\<close>

definition info_a :: property_info where
  "info_a = \<lparr>bukken_mei = str ''Maison A'', chinryo = str ''8.5'', madori = str ''1LDK'',
     moyori_eki = [str ''Shibuya 5'', str ''Ebisu 9''], url = BASE_URL @ str ''/a''\<rparr>"

definition info_b :: property_info where
  "info_b = \<lparr>bukken_mei = str ''Maison B'', chinryo = str ''7'', madori = str ''1K'',
     moyori_eki = [str ''Meguro 3''], url = BASE_URL @ str ''/b''\<rparr>"

definition info_c :: property_info where
  "info_c = \<lparr>bukken_mei = JOHO_NASHI, chinryo = str ''12'', madori = str ''2LDK'',
     moyori_eki = [str ''Ueno 7''], url = BASE_URL @ str ''/c''\<rparr>"

definition info_d :: property_info where
  "info_d = \<lparr>bukken_mei = str ''Maison D'', chinryo = str ''9'', madori = str ''1DK'',
     moyori_eki = [str ''Ueno 7''], url = BASE_URL @ str ''/d''\<rparr>"

text \<open>
  The parser accepts every page but the one that reads \<^verbatim>\<open>rejected\<close>. The index page; an
  index page whose second unit lacks the detail link; and three detail pages: a wooden flat (U+6728 U+9020 U+30A2 U+30D1 U+30FC U+30C8) with a deposit, a page
  with two structure rows (steel frame, U+9244 U+9AA8 U+9020, then reinforced concrete, RC
  U+9020) and no deposit row, and a page without a data table.
\<close>

definition index_soup :: node where
  "index_soup = soup_of [unit_a, unit_b, unit_no_title, unit_c, unit_d]"

definition broken_index_soup :: node where
  "broken_index_soup = soup_of [unit_a, unit_no_link, unit_d]"

definition row_steel :: node where
  "row_steel = data_row KOZO [37444, 39592, 36896]"

definition row_rc :: node where
  "row_rc = data_row (str '' '' @ KOZO @ str '' '') (str '' RC'' @ [36896, 32])"

definition soup_a :: node where
  "soup_a = soup_of [data_table
     [data_row KOZO (MOKUZO @ [12450, 12497, 12540, 12488]), data_row SHIKIKIN (str ''1'')]]"

definition soup_c :: node where
  "soup_c = soup_of [data_table [row_steel, data_row (str ''area'') (str ''40''), row_rc]]"

definition soup_d :: node where
  "soup_d = soup_of [text_tag (str ''p'') [] (str ''gone'')]"

definition example_parser :: "pystr \<Rightarrow> pyexn + node" where
  "example_parser html =
     (if html = str ''index'' then Inr index_soup
      else if html = str ''broken'' then Inr broken_index_soup
      else if html = str ''a'' then Inr soup_a
      else if html = str ''c'' then Inr soup_c
      else if html = str ''d'' then Inr soup_d
      else if html = str ''rejected'' then Inl ParserRejectedMarkup
      else Inr (soup_of []))"

text \<open>
  The site: the index and the pages of A, C and D are served; the page of B is never
  reached; anything else is not found.
\<close>

definition example_get :: "trace \<Rightarrow> pystr \<Rightarrow> get_result" where
  "example_get tr u =
     (if u = SEARCH_URL then Response 200 (str ''index'')
      else if u = BASE_URL @ str ''/a'' then Response 200 (str ''a'')
      else if u = BASE_URL @ str ''/b'' then Raises ConnectionError
      else if u = BASE_URL @ str ''/c'' then Response 200 (str ''c'')
      else if u = BASE_URL @ str ''/d'' then Response 200 (str ''d'')
      else Response 404 [])"

definition example_site :: "(trace \<Rightarrow> pystr \<Rightarrow> get_result) \<Rightarrow> env" where
  "example_site g =
     \<lparr>requests_get = g, html_parser = example_parser, select_raises = (\<lambda>soup. None),
      workbook_save = (\<lambda>tr filename. None)\<rparr>"

definition example_env :: env where
  "example_env = example_site example_get"

text \<open>
  Other networks: one that answers 503 to the very first request, times out on the second
  and serves the index from then on; one that refuses every connection; one that answers 404
  to everything; one whose index has no units; one whose index is the broken one; one on
  which \<^verbatim>\<open>requests.get\<close> raises an exception that is not a RequestException; and the
  example site with the page of C replaced by markup that the parser rejects.
\<close>

definition flaky_get :: "trace \<Rightarrow> pystr \<Rightarrow> get_result" where
  "flaky_get tr u =
     (if tr = [] then Response 503 (str ''busy'')
      else if length tr = 4 then Raises Timeout
      else Response 200 (str ''index''))"

definition unparsable_get :: "trace \<Rightarrow> pystr \<Rightarrow> get_result" where
  "unparsable_get tr u = Raises_other LocationParseError"

definition rejected_get :: "trace \<Rightarrow> pystr \<Rightarrow> get_result" where
  "rejected_get tr u =
     (if u = BASE_URL @ str ''/c'' then Response 200 (str ''rejected'') else example_get tr u)"

definition refusing_get :: "trace \<Rightarrow> pystr \<Rightarrow> get_result" where
  "refusing_get tr u = Raises ConnectionError"

definition missing_get :: "trace \<Rightarrow> pystr \<Rightarrow> get_result" where
  "missing_get tr u = Response 404 []"

definition empty_get :: "trace \<Rightarrow> pystr \<Rightarrow> get_result" where
  "empty_get tr u = Response 200 (str ''empty'')"

definition broken_get :: "trace \<Rightarrow> pystr \<Rightarrow> get_result" where
  "broken_get tr u = Response 200 (str ''broken'')"

text \<open>An environment in which \<^verbatim>\<open>select\<close> raises.\<close>

definition no_css_env :: env where
  "no_css_env = example_env\<lparr>select_raises := (\<lambda>soup. Some NotImplementedError)\<rparr>"

text \<open>
  The merged records of A, C and D, a record of a steel-frame building, and the events of a
  run on the example site.
\<close>

definition listing_a :: listing where
  "listing_a = update info_a
     \<lparr>d_kozo = MOKUZO @ [12450, 12497, 12540, 12488], d_shikikin_reikin = str ''1''\<rparr>"

definition listing_c :: listing where
  "listing_c = update info_c \<lparr>d_kozo = str ''RC'' @ [36896], d_shikikin_reikin = JOHO_NASHI\<rparr>"

definition listing_d :: listing where
  "listing_d = update info_d \<lparr>d_kozo = JOHO_NASHI, d_shikikin_reikin = JOHO_NASHI\<rparr>"

definition listing_steel :: listing where
  "listing_steel = update info_b \<lparr>d_kozo = [37444, 39592, 36896], d_shikikin_reikin = str ''2''\<rparr>"

definition failed_attempt :: "pystr \<Rightarrow> request_exception \<Rightarrow> event list" where
  "failed_attempt u ex =
     [Get u, Log ERROR (Error_fetching u ex), Log INFO (Retrying_after RETRY_INTERVAL),
      Sleep RETRY_INTERVAL]"

definition example_run :: "event list" where
  "example_run =
     [Log INFO Start_scraping, Get SEARCH_URL,
      Log WARNING (Failed_to_extract_property AttributeError),
      Get (url info_a)] @
     failed_attempt (url info_b) ConnectionError @ failed_attempt (url info_b) ConnectionError @
     [Get (url info_b), Log ERROR (Error_fetching (url info_b) ConnectionError),
      Log WARNING (Failed_to_fetch_detail (url info_b)),
      Get (url info_c), Get (url info_d),
      Call_save_to_excel [listing_c, listing_d] OUTPUT_EXCEL_FILE,
      Workbook_save OUTPUT_EXCEL_FILE [header, row_of listing_c, row_of listing_d],
      Log INFO (Saved_data_to OUTPUT_EXCEL_FILE), Log INFO Scraping_done]"


section \<open>Properties\<close>

subsection \<open>The retrying fetch\<close>

text \<open>The loop of \<open>fetch_page\<close>, unrolled over \<open>range(3)\<close>.\<close>

lemma fetch_page_unroll:
  "fetch_page e u tr =
     (case attempt e u tr of
        Returns text \<Rightarrow> (Inr (Some text), tr @ [Get u])
      | Uncaught ex \<Rightarrow> (Inl ex, tr @ [Get u])
      | Caught x1 \<Rightarrow>
          (let tr1 = tr @ failed_attempt u x1 in
           case attempt e u tr1 of
             Returns text \<Rightarrow> (Inr (Some text), tr1 @ [Get u])
           | Uncaught ex \<Rightarrow> (Inl ex, tr1 @ [Get u])
           | Caught x2 \<Rightarrow>
               (let tr2 = tr1 @ failed_attempt u x2 in
                case attempt e u tr2 of
                  Returns text \<Rightarrow> (Inr (Some text), tr2 @ [Get u])
                | Uncaught ex \<Rightarrow> (Inl ex, tr2 @ [Get u])
                | Caught x3 \<Rightarrow> (Inr None, tr2 @ [Get u, Log ERROR (Error_fetching u x3)]))))"
proof -
  have "[0..<MAX_RETRY] = [0, 1, 2]"
    by (simp add: MAX_RETRY_def upt_rec)
  then show ?thesis
    by (simp add: fetch_page_def MAX_RETRY_def Let_def failed_attempt_def
        split: attempt_result.splits)
qed

text \<open>
  How the \<^verbatim>\<open>try\<close> ends, by the answer of \<^verbatim>\<open>requests.get\<close>: a response with a status
  outside 400..599, as every 2xx status is, is returned; a response with a status from 400 to
  599 and a RequestException are caught; another exception is not.
\<close>

lemma try_result_cases:
  "try_result (Response status_code body) =
     (if 400 \<le> status_code \<and> status_code < 600 then Caught (HTTPError status_code)
      else Returns body)"
  "try_result (Raises rex) = Caught rex"
  "try_result (Raises_other ex) = Uncaught ex"
  by (simp_all add: try_result_def raise_for_status_def)

lemma attempt_2xx:
  "requests_get e tr u = Response status_code body \<Longrightarrow> 200 \<le> status_code \<Longrightarrow>
   status_code < 300 \<Longrightarrow> attempt e u tr = Returns body"
  by (simp add: attempt_def try_result_cases)

lemma outcomes_answers: "outcomes e tr evs = map try_result (answers e tr evs)"
  by (induction e tr evs rule: outcomes.induct) (simp_all add: attempt_def)

lemma fetch_page_discipline:
  "\<exists>evs. snd (fetch_page e u tr) = tr @ evs \<and> retry_discipline e u tr evs"
proof (cases "attempt e u tr")
  case (Returns body)
  then have "snd (fetch_page e u tr) = tr @ [Get u] \<and> retry_discipline e u tr [Get u]"
    by (simp add: fetch_page_unroll retry_discipline_def MAX_RETRY_def)
  then show ?thesis by blast
next
  case (Uncaught ex)
  then have "snd (fetch_page e u tr) = tr @ [Get u] \<and> retry_discipline e u tr [Get u]"
    by (simp add: fetch_page_unroll retry_discipline_def MAX_RETRY_def)
  then show ?thesis by blast
next
  case a1: (Caught x1)
  define r1 where "r1 = failed_attempt u x1"
  show ?thesis
  proof (cases "attempt e u (tr @ r1)")
    case (Returns body)
    with a1 have "snd (fetch_page e u tr) = tr @ (r1 @ [Get u]) \<and>
        retry_discipline e u tr (r1 @ [Get u])"
      by (simp add: fetch_page_unroll retry_discipline_def MAX_RETRY_def r1_def
          failed_attempt_def)
    then show ?thesis by blast
  next
    case (Uncaught ex)
    with a1 have "snd (fetch_page e u tr) = tr @ (r1 @ [Get u]) \<and>
        retry_discipline e u tr (r1 @ [Get u])"
      by (simp add: fetch_page_unroll retry_discipline_def MAX_RETRY_def r1_def
          failed_attempt_def)
    then show ?thesis by blast
  next
    case a2: (Caught x2)
    define r2 where "r2 = r1 @ failed_attempt u x2"
    show ?thesis
    proof (cases "attempt e u (tr @ r2)")
      case (Returns body)
      with a1 a2 have "snd (fetch_page e u tr) = tr @ (r2 @ [Get u]) \<and>
          retry_discipline e u tr (r2 @ [Get u])"
        by (simp add: fetch_page_unroll retry_discipline_def MAX_RETRY_def r1_def r2_def
            failed_attempt_def)
      then show ?thesis by blast
    next
      case (Uncaught ex)
      with a1 a2 have "snd (fetch_page e u tr) = tr @ (r2 @ [Get u]) \<and>
          retry_discipline e u tr (r2 @ [Get u])"
        by (simp add: fetch_page_unroll retry_discipline_def MAX_RETRY_def r1_def r2_def
            failed_attempt_def)
      then show ?thesis by blast
    next
      case (Caught x3)
      with a1 a2 have
        "snd (fetch_page e u tr) = tr @ (r2 @ [Get u, Log ERROR (Error_fetching u x3)]) \<and>
         retry_discipline e u tr (r2 @ [Get u, Log ERROR (Error_fetching u x3)])"
        by (simp add: fetch_page_unroll retry_discipline_def MAX_RETRY_def r1_def r2_def
            failed_attempt_def)
      then show ?thesis by blast
    qed
  qed
qed

text \<open>
  Claim C1. For every environment, URL and history, the events that \<open>fetch_page\<close> emits
  hold between one and \<open>MAX_RETRY\<close> (3) requests; restricted to requests and sleeps they are
  request, sleep of \<open>RETRY_INTERVAL\<close> (5) seconds, request, ..., request, all of the given
  URL, so there is exactly one such sleep between two consecutive attempts and none after the
  last. What \<^verbatim>\<open>requests.get\<close> answered decides: to every request but the last it
  answered with a RequestException or with a response of a status from 400 to 599. If the
  last answer is a response of any other status, as every 2xx status is, the text of that
  response is returned and the request is the last event; if it is a RequestException or a
  response of a status from 400 to 599, all \<open>MAX_RETRY\<close> attempts were made, \<open>None\<close> is
  returned and the last event is the log line of that error; if it is an exception that is
  not a RequestException, that exception leaves \<open>fetch_page\<close> at once.
\<close>

theorem fetch_page_bounded_retry:
  "\<exists>evs. snd (fetch_page e u tr) = tr @ evs \<and>
     1 \<le> length (answers e tr evs) \<and> length (answers e tr evs) \<le> MAX_RETRY \<and>
     MAX_RETRY = 3 \<and> RETRY_INTERVAL = 5 \<and>
     filter (\<lambda>ev. is_get ev \<or> is_sleep ev) evs = retry_schedule u (length (answers e tr evs)) \<and>
     (\<forall>a \<in> set (butlast (answers e tr evs)).
        case a of
          Response status_code body \<Rightarrow> 400 \<le> status_code \<and> status_code < 600
        | Raises rex \<Rightarrow> True
        | Raises_other ex \<Rightarrow> False) \<and>
     (case last (answers e tr evs) of
        Response status_code body \<Rightarrow>
          if 400 \<le> status_code \<and> status_code < 600
          then fst (fetch_page e u tr) = Inr None \<and> length (answers e tr evs) = MAX_RETRY \<and>
            last evs = Log ERROR (Error_fetching u (HTTPError status_code))
          else fst (fetch_page e u tr) = Inr (Some body) \<and> last evs = Get u
      | Raises rex \<Rightarrow>
          fst (fetch_page e u tr) = Inr None \<and> length (answers e tr evs) = MAX_RETRY \<and>
          last evs = Log ERROR (Error_fetching u rex)
      | Raises_other ex \<Rightarrow> fst (fetch_page e u tr) = Inl ex \<and> last evs = Get u)"
proof -
  obtain evs where evs: "snd (fetch_page e u tr) = tr @ evs" and d: "retry_discipline e u tr evs"
    using fetch_page_discipline by blast
  define as where "as = answers e tr evs"
  have os: "outcomes e tr evs = map try_result as"
    by (simp add: outcomes_answers as_def)
  have ne: "as \<noteq> []"
    using d by (auto simp: retry_discipline_def Let_def os)
  have len: "1 \<le> length as \<and> length as \<le> MAX_RETRY"
    using d by (simp add: retry_discipline_def Let_def os)
  have sched: "filter (\<lambda>ev. is_get ev \<or> is_sleep ev) evs = retry_schedule u (length as)"
    using d by (simp add: retry_discipline_def Let_def os)
  have "\<forall>x \<in> set (butlast (map try_result as)). is_Caught x"
    using d by (simp add: retry_discipline_def Let_def os)
  then have "\<forall>a \<in> set (butlast as). is_Caught (try_result a)"
    by (simp add: map_butlast [symmetric])
  then have early: "\<forall>a \<in> set (butlast as).
        case a of
          Response status_code body \<Rightarrow> 400 \<le> status_code \<and> status_code < 600
        | Raises rex \<Rightarrow> True
        | Raises_other ex \<Rightarrow> False"
    by (auto simp: try_result_cases split: get_result.splits if_splits)
  have l: "last (outcomes e tr evs) = try_result (last as)"
    using ne by (simp add: os last_map)
  have final: "case last as of
        Response status_code body \<Rightarrow>
          if 400 \<le> status_code \<and> status_code < 600
          then fst (fetch_page e u tr) = Inr None \<and> length as = MAX_RETRY \<and>
            last evs = Log ERROR (Error_fetching u (HTTPError status_code))
          else fst (fetch_page e u tr) = Inr (Some body) \<and> last evs = Get u
      | Raises rex \<Rightarrow>
          fst (fetch_page e u tr) = Inr None \<and> length as = MAX_RETRY \<and>
          last evs = Log ERROR (Error_fetching u rex)
      | Raises_other ex \<Rightarrow> fst (fetch_page e u tr) = Inl ex \<and> last evs = Get u"
    using d unfolding retry_discipline_def Let_def l
    by (cases "last as") (auto simp: try_result_cases os split: if_splits)
  show ?thesis
    using evs len sched early final unfolding as_def
    by (intro exI [of _ evs]) (simp add: MAX_RETRY_def RETRY_INTERVAL_def)
qed

text \<open>
  Claim C2, as amended. \<open>fetch_page\<close> returns \<open>None\<close> exactly when every attempt it made
  failed; then it made all \<open>MAX_RETRY\<close> attempts, and the final error and the URL are in
  the log, in the ERROR line that is the last event. The returned value itself is the bare
  \<open>None\<close>.
\<close>

theorem fetch_page_exhausted:
  "\<exists>evs. snd (fetch_page e u tr) = tr @ evs \<and>
     (fst (fetch_page e u tr) = Inr None \<longleftrightarrow> (\<forall>x \<in> set (outcomes e tr evs). is_Caught x)) \<and>
     ((\<forall>x \<in> set (outcomes e tr evs). is_Caught x) \<longrightarrow>
        length (outcomes e tr evs) = MAX_RETRY \<and>
        (\<exists>ex. last (outcomes e tr evs) = Caught ex \<and> last evs = Log ERROR (Error_fetching u ex)))"
proof -
  obtain evs where evs: "snd (fetch_page e u tr) = tr @ evs" and d: "retry_discipline e u tr evs"
    using fetch_page_discipline by blast
  have ne: "outcomes e tr evs \<noteq> []"
    using d by (auto simp: retry_discipline_def Let_def)
  show ?thesis
  proof (cases "last (outcomes e tr evs)")
    case (Caught ex)
    then show ?thesis
      using evs d by (intro exI [of _ evs]) (simp add: retry_discipline_def Let_def)
  next
    case (Returns body)
    then have "\<not> (\<forall>x \<in> set (outcomes e tr evs). is_Caught x)"
      using last_in_set [OF ne] by (metis attempt_result.disc(4))
    then show ?thesis
      using evs d Returns by (intro exI [of _ evs]) (simp add: retry_discipline_def Let_def)
  next
    case (Uncaught ex)
    then have "\<not> (\<forall>x \<in> set (outcomes e tr evs). is_Caught x)"
      using last_in_set [OF ne] by (metis attempt_result.disc(6))
    then show ?thesis
      using evs d Uncaught by (intro exI [of _ evs]) (simp add: retry_discipline_def Let_def)
  qed
qed

subsection \<open>What each function emits\<close>

lemma requests_append [simp]: "requests (xs @ ys) = requests xs @ requests ys"
  by (induction xs rule: requests.induct) simp_all

lemma sink_calls_append [simp]: "sink_calls (xs @ ys) = sink_calls xs @ sink_calls ys"
  by (induction xs rule: sink_calls.induct) simp_all

lemma saves_append [simp]: "saves (xs @ ys) = saves xs @ saves ys"
  by (induction xs rule: saves.induct) simp_all

text \<open>
  \<open>fetch_page\<close> requests its URL only, at most three times, exactly three times when it
  returns \<open>None\<close>, and emits nothing for the sink.
\<close>

lemma fetch_loop_emits:
  "\<exists>evs. snd (fetch_loop e u ns tr) = tr @ evs \<and> sink_calls evs = [] \<and> saves evs = [] \<and>
     requests evs = replicate (length (requests evs)) u \<and> length (requests evs) \<le> length ns \<and>
     (fst (fetch_loop e u ns tr) = Inr None \<longrightarrow> length (requests evs) = length ns)"
proof (induction ns arbitrary: tr)
  case Nil
  show ?case by simp
next
  case (Cons i ns)
  show ?case
  proof (cases "attempt e u tr")
    case (Returns body)
    then show ?thesis by simp
  next
    case (Uncaught ex)
    then show ?thesis by simp
  next
    case (Caught ex)
    define w where "w = (if i < MAX_RETRY - 1 then failed_attempt u ex
      else [Get u, Log ERROR (Error_fetching u ex)])"
    have step: "fetch_loop e u (i # ns) tr = fetch_loop e u ns (tr @ w)"
      using Caught by (simp add: w_def failed_attempt_def)
    have w: "requests w = [u]" "sink_calls w = []" "saves w = []"
      by (simp_all add: w_def failed_attempt_def)
    obtain evs where evs: "snd (fetch_loop e u ns (tr @ w)) = (tr @ w) @ evs"
        "sink_calls evs = []" "saves evs = []"
        "requests evs = replicate (length (requests evs)) u" "length (requests evs) \<le> length ns"
        "fst (fetch_loop e u ns (tr @ w)) = Inr None \<longrightarrow> length (requests evs) = length ns"
      using Cons.IH [of "tr @ w"] by blast
    have "requests (w @ evs) = replicate (length (requests (w @ evs))) u"
      using w(1) evs(4) by simp
    then show ?thesis
      unfolding step using evs w by (intro exI [of _ "w @ evs"]) simp
  qed
qed

lemma fetch_page_emits:
  "\<exists>evs. snd (fetch_page e u tr) = tr @ evs \<and> sink_calls evs = [] \<and> saves evs = [] \<and>
     requests evs = replicate (length (requests evs)) u \<and> length (requests evs) \<le> MAX_RETRY \<and>
     (fst (fetch_page e u tr) = Inr None \<longrightarrow> length (requests evs) = MAX_RETRY)"
  using fetch_loop_emits [of e u "[0..<MAX_RETRY]" tr] by (simp add: fetch_page_def)

text \<open>
  Where the network answers alike from two histories on, \<open>fetch_page\<close> returns the same
  and emits the same events after both.
\<close>

lemma fetch_loop_relocate:
  assumes "\<And>s. requests_get e1 (tr1 @ s) u = requests_get e2 (tr2 @ s) u"
  shows "\<exists>r evs. fetch_loop e1 u ns tr1 = (r, tr1 @ evs) \<and>
     fetch_loop e2 u ns tr2 = (r, tr2 @ evs)"
  using assms
proof (induction ns arbitrary: tr1 tr2)
  case Nil
  show ?case by simp
next
  case (Cons i ns)
  have eq: "attempt e1 u tr1 = attempt e2 u tr2"
    using Cons.prems [of "[]"] by (simp add: attempt_def)
  show ?case
  proof (cases "attempt e2 u tr2")
    case (Returns body)
    then show ?thesis using eq by simp
  next
    case (Uncaught ex)
    then show ?thesis using eq by simp
  next
    case (Caught ex)
    define w where "w = (if i < MAX_RETRY - 1 then failed_attempt u ex
      else [Get u, Log ERROR (Error_fetching u ex)])"
    have step: "fetch_loop e1 u (i # ns) tr1 = fetch_loop e1 u ns (tr1 @ w)"
        "fetch_loop e2 u (i # ns) tr2 = fetch_loop e2 u ns (tr2 @ w)"
      using Caught eq by (simp_all add: w_def failed_attempt_def)
    have "\<And>s. requests_get e1 ((tr1 @ w) @ s) u = requests_get e2 ((tr2 @ w) @ s) u"
      using Cons.prems by simp
    then obtain r evs where "fetch_loop e1 u ns (tr1 @ w) = (r, (tr1 @ w) @ evs)"
        "fetch_loop e2 u ns (tr2 @ w) = (r, (tr2 @ w) @ evs)"
      using Cons.IH [of "tr1 @ w" "tr2 @ w"] by blast
    then show ?thesis
      unfolding step by (intro exI [of _ r] exI [of _ "w @ evs"]) simp
  qed
qed

lemma fetch_page_relocate:
  assumes "\<And>s. requests_get e1 (tr1 @ s) u = requests_get e2 (tr2 @ s) u"
  shows "\<exists>r evs. fetch_page e1 u tr1 = (r, tr1 @ evs) \<and> fetch_page e2 u tr2 = (r, tr2 @ evs)"
  unfolding fetch_page_def using assms by (rule fetch_loop_relocate)

text \<open>The loop over the units emits warnings only, and does the same from every history.\<close>

lemma properties_loop_emits:
  "\<exists>n. snd (properties_loop us data tr) =
      tr @ replicate n (Log WARNING (Failed_to_extract_property AttributeError))"
proof (induction us arbitrary: data tr)
  case Nil
  show ?case by (simp add: exI [of _ 0])
next
  case (Cons u us)
  show ?case
  proof (cases "extract_property u")
    case (Inr p)
    then show ?thesis using Cons.IH [of "data @ [p]" tr] by simp
  next
    case (Inl ex)
    show ?thesis
    proof (cases "ex = AttributeError")
      case True
      obtain n where "snd (properties_loop us data (tr @ [Log WARNING (Failed_to_extract_property AttributeError)])) =
         (tr @ [Log WARNING (Failed_to_extract_property AttributeError)]) @ replicate n (Log WARNING (Failed_to_extract_property AttributeError))"
        using Cons.IH by blast
      then have "snd (properties_loop (u # us) data tr) = tr @ replicate (Suc n) (Log WARNING (Failed_to_extract_property AttributeError))"
        using Inl True by simp
      then show ?thesis by blast
    next
      case False
      then show ?thesis using Inl by (simp add: exI [of _ 0])
    qed
  qed
qed

lemma properties_loop_relocate:
  "\<exists>r evs. properties_loop us data tr1 = (r, tr1 @ evs) \<and> properties_loop us data tr2 = (r, tr2 @ evs)"
proof (induction us arbitrary: data tr1 tr2)
  case Nil
  show ?case by simp
next
  case (Cons u us)
  show ?case
  proof (cases "extract_property u")
    case (Inr p)
    then show ?thesis using Cons.IH [of "data @ [p]" tr1 tr2] by simp
  next
    case (Inl ex)
    show ?thesis
    proof (cases "ex = AttributeError")
      case True
      obtain r evs where "properties_loop us data (tr1 @ [Log WARNING (Failed_to_extract_property ex)]) = (r, (tr1 @ [Log WARNING (Failed_to_extract_property ex)]) @ evs)"
         "properties_loop us data (tr2 @ [Log WARNING (Failed_to_extract_property ex)]) = (r, (tr2 @ [Log WARNING (Failed_to_extract_property ex)]) @ evs)"
        using Cons.IH by blast
      then show ?thesis
        using Inl True by simp
    next
      case False
      then show ?thesis using Inl by simp
    qed
  qed
qed

text \<open>
  Where every unit either extracts or lacks one of the elements whose absence is an
  AttributeError, the loop returns the extracted records in order and logs one warning for
  each of the others.
\<close>

lemma properties_loop_skips:
  assumes "\<forall>unit \<in> set us. \<forall>ex. extract_property unit = Inl ex \<longrightarrow> ex = AttributeError"
  shows "properties_loop us data tr =
     (Inr (data @ concat (map (\<lambda>unit. case extract_property unit of
                                 Inr p \<Rightarrow> [p] | Inl ex \<Rightarrow> []) us)),
      tr @ replicate (length (filter (\<lambda>unit. isl (extract_property unit)) us))
             (Log WARNING (Failed_to_extract_property AttributeError)))"
  using assms
proof (induction us arbitrary: data tr)
  case Nil
  show ?case by simp
next
  case (Cons u us)
  show ?case
  proof (cases "extract_property u")
    case (Inr p)
    then show ?thesis
      using Cons.IH [of "data @ [p]" tr] Cons.prems by simp
  next
    case (Inl ex)
    then have "ex = AttributeError"
      using Cons.prems by simp
    then show ?thesis
      using Inl Cons.IH [of data "tr @ [Log WARNING (Failed_to_extract_property AttributeError)]"]
        Cons.prems
      by (simp add: replicate_app_Cons_same)
  qed
qed

text \<open>Every record of the result was extracted from a unit.\<close>
lemma properties_loop_extracted:
  "properties_loop us data tr = (Inr ps, tr') \<Longrightarrow> p \<in> set ps \<Longrightarrow>
   p \<in> set data \<or> (\<exists>unit \<in> set us. extract_property unit = Inr p)"
proof (induction us arbitrary: data tr)
  case Nil
  then show ?case by simp
next
  case (Cons u us)
  then show ?case
    by (fastforce split: sum.splits if_splits)
qed

text \<open>\<open>parse_search_results\<close>: warnings only, and the same from every history.\<close>

lemma parse_search_results_emits:
  "\<exists>evs. snd (parse_search_results e html tr) = tr @ evs \<and> requests evs = [] \<and>
     sink_calls evs = [] \<and> saves evs = []"
proof (cases "html_parser e html")
  case (Inl ex)
  then show ?thesis by (simp add: parse_search_results_def)
next
  case (Inr soup)
  obtain n where "snd (properties_loop
      (find_all soup (str ''div'') (Some (str ''property_unit-content''))) [] tr) =
      tr @ replicate n (Log WARNING (Failed_to_extract_property AttributeError))"
    using properties_loop_emits by blast
  then have "snd (parse_search_results e html tr) =
      tr @ replicate n (Log WARNING (Failed_to_extract_property AttributeError))"
    using Inr by (simp add: parse_search_results_def)
  moreover have "requests (replicate n (Log WARNING m)) = [] \<and>
      sink_calls (replicate n (Log WARNING m)) = [] \<and> saves (replicate n (Log WARNING m)) = []" for m
    by (induction n) simp_all
  ultimately show ?thesis by auto
qed

lemma parse_search_results_relocate:
  assumes "html_parser e1 = html_parser e2"
  shows "\<exists>r evs. parse_search_results e1 html tr1 = (r, tr1 @ evs) \<and>
     parse_search_results e2 html tr2 = (r, tr2 @ evs)"
proof (cases "html_parser e2 html")
  case (Inl ex)
  then show ?thesis by (simp add: parse_search_results_def assms)
next
  case (Inr soup)
  then show ?thesis
    using properties_loop_relocate
    by (simp add: parse_search_results_def assms Let_def)
qed

lemma parse_search_results_extracted:
  assumes "parse_search_results e html tr = (Inr plist, tr')" and "p \<in> set plist"
  shows "\<exists>soup. html_parser e html = Inr soup \<and>
     (\<exists>unit \<in> set (find_all soup (str ''div'') (Some (str ''property_unit-content''))).
        extract_property unit = Inr p)"
proof (cases "html_parser e html")
  case (Inl ex)
  then show ?thesis using assms by (simp add: parse_search_results_def)
next
  case (Inr soup)
  then show ?thesis
    using assms properties_loop_extracted [of _ "[]" tr plist tr' p]
    by (simp add: parse_search_results_def Let_def)
qed

text \<open>
  \<open>parse_property_details\<close>: at most a warning, the same result from every history, and no
  exception on a page that the parser accepts.
\<close>

lemma parse_property_details_emits:
  "\<exists>evs. snd (parse_property_details e html tr) = tr @ evs \<and> requests evs = [] \<and>
     sink_calls evs = [] \<and> saves evs = []"
  by (simp add: parse_property_details_def split: prod.splits option.splits sum.splits)

lemma parse_property_details_fst:
  "fst (parse_property_details e html tr) = fst (parse_property_details e html tr')"
  by (simp add: parse_property_details_def split: prod.splits option.splits sum.splits)

lemma parse_property_details_relocate:
  assumes "html_parser e1 = html_parser e2" and "select_raises e1 = select_raises e2"
  shows "\<exists>r evs. parse_property_details e1 html tr1 = (r, tr1 @ evs) \<and>
     parse_property_details e2 html tr2 = (r, tr2 @ evs)"
  using assms
  by (simp add: parse_property_details_def details_try_def
      split: prod.splits option.splits sum.splits)

lemma parse_property_details_raises:
  "html_parser e html = Inl ex \<Longrightarrow> parse_property_details e html tr = (Inl ex, tr)"
  by (simp add: parse_property_details_def)

lemma parse_property_details_returns:
  "html_parser e html = Inr soup \<Longrightarrow> \<exists>d. fst (parse_property_details e html tr) = Inr d"
  by (simp add: parse_property_details_def split: prod.splits option.splits)

text \<open>The loop over the records: nothing for the sink; what it returns when it returns.\<close>

lemma details_loop_emits:
  "\<exists>evs. snd (details_loop e ps acc tr) = tr @ evs \<and> sink_calls evs = [] \<and> saves evs = []"
proof (induction ps arbitrary: acc tr)
  case Nil
  show ?case by simp
next
  case (Cons p ps)
  obtain r tr1 where f: "fetch_page e (url p) tr = (r, tr1)"
    by (cases "fetch_page e (url p) tr")
  obtain evs1 where e1: "tr1 = tr @ evs1" "sink_calls evs1 = []" "saves evs1 = []"
    using fetch_page_emits [of e "url p" tr] f by auto
  show ?case
  proof (cases r)
    case (Inl ex)
    then show ?thesis using f e1 by simp
  next
    case (Inr page)
    show ?thesis
    proof (cases page)
      case None
      define w where "w = evs1 @ [Log WARNING (Failed_to_fetch_detail (url p))]"
      obtain evs2 where "snd (details_loop e ps acc (tr @ w)) = (tr @ w) @ evs2"
          "sink_calls evs2 = []" "saves evs2 = []"
        using Cons.IH by blast
      then have "snd (details_loop e (p # ps) acc tr) = tr @ (w @ evs2) \<and>
          sink_calls (w @ evs2) = [] \<and> saves (w @ evs2) = []"
        using f Inr None e1 by (simp add: w_def)
      then show ?thesis by blast
    next
      case (Some h)
      obtain r2 tr2 where pd: "parse_property_details e h tr1 = (r2, tr2)"
        by (cases "parse_property_details e h tr1")
      obtain evs2 where e2: "tr2 = tr1 @ evs2" "sink_calls evs2 = []" "saves evs2 = []"
        using parse_property_details_emits [of e h tr1] pd by auto
      show ?thesis
      proof (cases r2)
        case (Inl ex)
        then have "snd (details_loop e (p # ps) acc tr) = tr @ (evs1 @ evs2) \<and>
            sink_calls (evs1 @ evs2) = [] \<and> saves (evs1 @ evs2) = []"
          using f Inr Some pd e1 e2 by simp
        then show ?thesis by blast
      next
        case r2: (Inr d)
        obtain evs3 where "snd (details_loop e ps (acc @ [update p d]) tr2) = tr2 @ evs3"
            "sink_calls evs3 = []" "saves evs3 = []"
          using Cons.IH by blast
        then have "snd (details_loop e (p # ps) acc tr) = tr @ (evs1 @ evs2 @ evs3) \<and>
            sink_calls (evs1 @ evs2 @ evs3) = [] \<and> saves (evs1 @ evs2 @ evs3) = []"
          using f Inr Some pd r2 e1 e2 by simp
        then show ?thesis by blast
      qed
    qed
  qed
qed

lemma details_loop_result:
  "details_loop e ps acc tr = (Inr all_data, tr') \<Longrightarrow>
     all_data = acc @ List.map_filter merged (zip ps (detail_results e ps tr)) \<and>
     length (detail_results e ps tr) = length ps"
proof (induction ps arbitrary: acc tr)
  case Nil
  then show ?case by (simp add: List.map_filter_simps)
next
  case (Cons p ps)
  obtain r tr1 where f: "fetch_page e (url p) tr = (r, tr1)"
    by (cases "fetch_page e (url p) tr")
  show ?case
  proof (cases r)
    case (Inl ex)
    then show ?thesis using f Cons.prems by simp
  next
    case (Inr page)
    show ?thesis
    proof (cases page)
      case None
      then show ?thesis
        using f Inr Cons.prems Cons.IH by (simp add: List.map_filter_simps merged_def)
    next
      case (Some h)
      obtain r2 tr2 where pd: "parse_property_details e h tr1 = (r2, tr2)"
        by (cases "parse_property_details e h tr1")
      show ?thesis
      proof (cases r2)
        case (Inl ex)
        then show ?thesis using f Inr Some pd Cons.prems by simp
      next
        case r2: (Inr d)
        then have "details_loop e ps (acc @ [update p d]) tr2 = (Inr all_data, tr')"
          using f Inr Some pd Cons.prems by simp
        then show ?thesis
          using f Inr Some pd r2 Cons.IH [of "acc @ [update p d]" tr2]
          by (simp add: List.map_filter_simps merged_def)
      qed
    qed
  qed
qed

text \<open>Every result of the loop pairs a fetched page with the details parsed from it.\<close>

lemma detail_results_parsed:
  "Some (h, d) \<in> set (detail_results e ps tr) \<Longrightarrow> fst (parse_property_details e h []) = Inr d"
proof (induction ps arbitrary: tr)
  case Nil
  then show ?case by simp
next
  case (Cons p ps)
  obtain r tr1 where f: "fetch_page e (url p) tr = (r, tr1)"
    by (cases "fetch_page e (url p) tr")
  show ?case
  proof (cases r)
    case (Inl ex)
    then show ?thesis using f Cons.prems by simp
  next
    case (Inr page)
    show ?thesis
    proof (cases page)
      case None
      then show ?thesis using f Inr Cons.prems Cons.IH by auto
    next
      case (Some h')
      obtain r2 tr2 where pd: "parse_property_details e h' tr1 = (r2, tr2)"
        by (cases "parse_property_details e h' tr1")
      show ?thesis
      proof (cases r2)
        case (Inl ex)
        then show ?thesis using f Inr Some pd Cons.prems by simp
      next
        case r2: (Inr d')
        have "fst (parse_property_details e h' []) = Inr d'"
          using pd r2 parse_property_details_fst [of e h' "[]" tr1] by simp
        then show ?thesis
          using f Inr Some pd r2 Cons.prems Cons.IH [of tr2] by auto
      qed
    qed
  qed
qed

text \<open>
  Where \<^verbatim>\<open>requests.get\<close> raises nothing but RequestExceptions and the parser accepts every
  page, no exception leaves the loop.
\<close>

lemma fetch_loop_no_exception:
  assumes "\<And>tr u ex. requests_get e tr u \<noteq> Raises_other ex"
  shows "\<exists>page. fst (fetch_loop e u ns tr) = Inr page"
proof (induction ns arbitrary: tr)
  case Nil
  show ?case by simp
next
  case (Cons i ns)
  show ?case
  proof (cases "requests_get e tr u")
    case (Response status_code body)
    then show ?thesis
      using Cons.IH by (simp add: attempt_def try_result_cases)
  next
    case (Raises rex)
    then show ?thesis
      using Cons.IH by (simp add: attempt_def try_result_cases)
  next
    case (Raises_other ex)
    then show ?thesis using assms by simp
  qed
qed

lemma details_loop_completes:
  assumes "\<And>tr u ex. requests_get e tr u \<noteq> Raises_other ex"
    and "\<And>html. \<exists>soup. html_parser e html = Inr soup"
  shows "\<exists>all_data. fst (details_loop e ps acc tr) = Inr all_data"
proof (induction ps arbitrary: acc tr)
  case Nil
  show ?case by simp
next
  case (Cons p ps)
  obtain page where page: "fst (fetch_page e (url p) tr) = Inr page"
    using fetch_loop_no_exception [OF assms(1)] unfolding fetch_page_def by blast
  obtain tr1 where f: "fetch_page e (url p) tr = (Inr page, tr1)"
    using page by (cases "fetch_page e (url p) tr") simp
  show ?case
  proof (cases page)
    case None
    then show ?thesis using f Cons.IH by simp
  next
    case (Some h)
    obtain soup where "html_parser e h = Inr soup"
      using assms(2) by blast
    then obtain d where "fst (parse_property_details e h tr1) = Inr d"
      using parse_property_details_returns by blast
    then obtain tr2 where "parse_property_details e h tr1 = (Inr d, tr2)"
      by (cases "parse_property_details e h tr1") simp
    then show ?thesis using f Some Cons.IH by simp
  qed
qed

lemma details_loop_relocate:
  assumes "html_parser e1 = html_parser e2" and "select_raises e1 = select_raises e2"
    and "\<And>s u. requests_get e1 (tr1 @ s) u = requests_get e2 (tr2 @ s) u"
  shows "\<exists>r evs. details_loop e1 ps acc tr1 = (r, tr1 @ evs) \<and>
     details_loop e2 ps acc tr2 = (r, tr2 @ evs)"
  using assms(3)
proof (induction ps arbitrary: acc tr1 tr2)
  case Nil
  show ?case by simp
next
  case (Cons p ps)
  obtain r evs1 where f: "fetch_page e1 (url p) tr1 = (r, tr1 @ evs1)"
      "fetch_page e2 (url p) tr2 = (r, tr2 @ evs1)"
    using fetch_page_relocate [of e1 tr1 "url p" e2 tr2] Cons.prems by blast
  show ?case
  proof (cases r)
    case (Inl ex)
    then show ?thesis using f by simp
  next
    case (Inr page)
    show ?thesis
    proof (cases page)
      case None
      define w where "w = evs1 @ [Log WARNING (Failed_to_fetch_detail (url p))]"
      have "\<And>s u. requests_get e1 ((tr1 @ w) @ s) u = requests_get e2 ((tr2 @ w) @ s) u"
        using Cons.prems by simp
      then obtain r' evs where "details_loop e1 ps acc (tr1 @ w) = (r', (tr1 @ w) @ evs)"
          "details_loop e2 ps acc (tr2 @ w) = (r', (tr2 @ w) @ evs)"
        using Cons.IH [of "tr1 @ w" "tr2 @ w" acc] by blast
      then have "details_loop e1 (p # ps) acc tr1 = (r', tr1 @ (w @ evs)) \<and>
          details_loop e2 (p # ps) acc tr2 = (r', tr2 @ (w @ evs))"
        using f Inr None by (simp add: w_def)
      then show ?thesis by blast
    next
      case (Some h)
      obtain r2 evs2 where pd:
          "parse_property_details e1 h (tr1 @ evs1) = (r2, (tr1 @ evs1) @ evs2)"
          "parse_property_details e2 h (tr2 @ evs1) = (r2, (tr2 @ evs1) @ evs2)"
        using parse_property_details_relocate [OF assms(1,2)] by blast
      define w where "w = evs1 @ evs2"
      show ?thesis
      proof (cases r2)
        case (Inl ex)
        then have "details_loop e1 (p # ps) acc tr1 = (Inl ex, tr1 @ w) \<and>
            details_loop e2 (p # ps) acc tr2 = (Inl ex, tr2 @ w)"
          using f Inr Some pd by (simp add: w_def)
        then show ?thesis by blast
      next
        case r2: (Inr d)
        have "\<And>s u. requests_get e1 ((tr1 @ w) @ s) u = requests_get e2 ((tr2 @ w) @ s) u"
          using Cons.prems by simp
        then obtain r' evs where
            "details_loop e1 ps (acc @ [update p d]) (tr1 @ w) = (r', (tr1 @ w) @ evs)"
            "details_loop e2 ps (acc @ [update p d]) (tr2 @ w) = (r', (tr2 @ w) @ evs)"
          using Cons.IH [of "tr1 @ w" "tr2 @ w" "acc @ [update p d]"] by blast
        then have "details_loop e1 (p # ps) acc tr1 = (r', tr1 @ (w @ evs)) \<and>
            details_loop e2 (p # ps) acc tr2 = (r', tr2 @ (w @ evs))"
          using f Inr Some pd r2 by (simp add: w_def)
        then show ?thesis by blast
      qed
    qed
  qed
qed

text \<open>The sink: the call comes first, and nothing after it is a call or a request.\<close>

lemma save_to_excel_emits:
  "\<exists>evs. snd (save_to_excel e data filename tr) = tr @ Call_save_to_excel data filename # evs \<and>
     sink_calls evs = [] \<and> requests evs = [] \<and> (data = [] \<longrightarrow> saves evs = [])"
  by (simp add: save_to_excel_def Let_def split: option.splits sum.splits)

lemma save_to_excel_relocate:
  assumes "\<And>s f. workbook_save e1 (tr1 @ s) f = workbook_save e2 (tr2 @ s) f"
  shows "\<exists>r evs. save_to_excel e1 data filename tr1 = (r, tr1 @ evs) \<and>
     save_to_excel e2 data filename tr2 = (r, tr2 @ evs)"
  using assms [of "[Call_save_to_excel data filename]" filename]
  by (simp add: save_to_excel_def Let_def split: option.splits sum.splits)


subsection \<open>The example site, evaluated\<close>

lemma str_Nil: "str [] = []"
  by (simp add: str_def)

lemma str_Cons: "str (c # cs) = of_char c # str cs"
  by (simp add: str_def)

lemmas tag_defs = text_tag_def unit_title_def unit_body_def unit_link_def listing_unit_def
  soup_of_def data_row_def data_table_def JS_BUKKEN_GAIYO_def str_Nil str_Cons

lemmas extract_defs = extract_property_def find_tag_def find_all_def strip_def isspace_def
  split_def TOUTEN_def JOHO_NASHI_def BASE_URL_def

lemma extract_unit_a: "extract_property unit_a = Inr info_a"
  by (simp add: unit_a_def info_a_def extract_defs tag_defs)

lemma extract_unit_b: "extract_property unit_b = Inr info_b"
  by (simp add: unit_b_def info_b_def extract_defs tag_defs)

lemma extract_unit_c: "extract_property unit_c = Inr info_c"
  by (simp add: unit_c_def info_c_def extract_defs tag_defs)

lemma extract_unit_d: "extract_property unit_d = Inr info_d"
  by (simp add: unit_d_def info_d_def extract_defs tag_defs)

lemma extract_unit_no_title: "extract_property unit_no_title = Inl AttributeError"
  by (simp add: unit_no_title_def extract_defs tag_defs)

lemma extract_unit_no_link: "extract_property unit_no_link = Inl TypeError"
  by (simp add: unit_no_link_def extract_defs tag_defs)

lemma units_of_index:
  "find_all index_soup (str ''div'') (Some (str ''property_unit-content'')) =
     [unit_a, unit_b, unit_no_title, unit_c, unit_d]"
  by (simp add: index_soup_def unit_a_def unit_b_def unit_c_def unit_d_def unit_no_title_def
      find_all_def tag_defs)

lemma units_of_broken_index:
  "find_all broken_index_soup (str ''div'') (Some (str ''property_unit-content'')) =
     [unit_a, unit_no_link, unit_d]"
  by (simp add: broken_index_soup_def unit_a_def unit_d_def unit_no_link_def
      find_all_def tag_defs)

lemma example_parser_simps:
  "example_parser (str ''index'') = Inr index_soup"
  "example_parser (str ''broken'') = Inr broken_index_soup"
  "example_parser (str ''a'') = Inr soup_a"
  "example_parser (str ''c'') = Inr soup_c"
  "example_parser (str ''d'') = Inr soup_d"
  "example_parser (str ''empty'') = Inr (soup_of [])"
  "example_parser (str ''rejected'') = Inl ParserRejectedMarkup"
  by (simp_all add: example_parser_def str_Nil str_Cons)

lemma example_site_simps:
  "requests_get (example_site g) = g"
  "html_parser (example_site g) = example_parser"
  "select_raises (example_site g) soup = None"
  "workbook_save (example_site g) tr filename = None"
  by (simp_all add: example_site_def)

lemma parse_index:
  "parse_search_results (example_site g) (str ''index'') tr =
     (Inr [info_a, info_b, info_c, info_d],
      tr @ [Log WARNING (Failed_to_extract_property AttributeError)])"
  by (simp add: parse_search_results_def example_site_simps example_parser_simps units_of_index
      extract_unit_a extract_unit_b extract_unit_c extract_unit_d extract_unit_no_title)

lemma parse_broken_index:
  "parse_search_results (example_site g) (str ''broken'') tr = (Inl TypeError, tr)"
  by (simp add: parse_search_results_def example_site_simps example_parser_simps
      units_of_broken_index extract_unit_a extract_unit_no_link)

lemma parse_empty_index:
  "parse_search_results (example_site g) (str ''empty'') tr = (Inr [], tr)"
  by (simp add: parse_search_results_def example_site_simps example_parser_simps
      find_all_def soup_of_def)

lemma example_urls:
  "url info_a = BASE_URL @ str ''/a''" "url info_b = BASE_URL @ str ''/b''"
  "url info_c = BASE_URL @ str ''/c''" "url info_d = BASE_URL @ str ''/d''"
  by (simp_all add: info_a_def info_b_def info_c_def info_d_def)

lemma example_answers:
  "example_get tr SEARCH_URL = Response 200 (str ''index'')"
  "example_get tr (url info_a) = Response 200 (str ''a'')"
  "example_get tr (url info_b) = Raises ConnectionError"
  "example_get tr (url info_c) = Response 200 (str ''c'')"
  "example_get tr (url info_d) = Response 200 (str ''d'')"
  by (simp_all add: example_get_def example_urls SEARCH_URL_def BASE_URL_def str_Nil str_Cons)

lemma example_attempts:
  "attempt example_env SEARCH_URL tr = Returns (str ''index'')"
  "attempt example_env (url info_a) tr = Returns (str ''a'')"
  "attempt example_env (url info_b) tr = Caught ConnectionError"
  "attempt example_env (url info_c) tr = Returns (str ''c'')"
  "attempt example_env (url info_d) tr = Returns (str ''d'')"
  by (simp_all add: attempt_def example_env_def example_site_simps example_answers
      try_result_cases)

lemma example_fetches:
  "fetch_page example_env SEARCH_URL tr = (Inr (Some (str ''index'')), tr @ [Get SEARCH_URL])"
  "fetch_page example_env (url info_a) tr = (Inr (Some (str ''a'')), tr @ [Get (url info_a)])"
  "fetch_page example_env (url info_b) tr =
     (Inr None, tr @ failed_attempt (url info_b) ConnectionError @
        failed_attempt (url info_b) ConnectionError @
        [Get (url info_b), Log ERROR (Error_fetching (url info_b) ConnectionError)])"
  "fetch_page example_env (url info_c) tr = (Inr (Some (str ''c'')), tr @ [Get (url info_c)])"
  "fetch_page example_env (url info_d) tr = (Inr (Some (str ''d'')), tr @ [Get (url info_d)])"
  by (simp_all add: fetch_page_unroll example_attempts)

lemma rows_of_examples:
  "select_data_table_tr soup_a =
     [data_row KOZO (MOKUZO @ [12450, 12497, 12540, 12488]), data_row SHIKIKIN (str ''1'')]"
  "select_data_table_tr soup_c = [row_steel, data_row (str ''area'') (str ''40''), row_rc]"
  "select_data_table_tr soup_d = []"
  by (simp_all add: select_data_table_tr_def soup_a_def soup_c_def soup_d_def row_steel_def
      row_rc_def is_data_table_def tag_defs)

lemmas row_defs = find_tag_def find_all_def strip_def isspace_def KOZO_def SHIKIKIN_def
  MOKUZO_def sublist_Cons_right row_steel_def row_rc_def tag_defs

lemma rows_loop_examples:
  "rows_loop (select_data_table_tr soup_a) initial_details =
     \<lparr>d_kozo = MOKUZO @ [12450, 12497, 12540, 12488], d_shikikin_reikin = str ''1''\<rparr>"
  "rows_loop (select_data_table_tr soup_c) initial_details =
     \<lparr>d_kozo = str ''RC'' @ [36896], d_shikikin_reikin = JOHO_NASHI\<rparr>"
  "rows_loop (select_data_table_tr soup_d) initial_details =
     \<lparr>d_kozo = JOHO_NASHI, d_shikikin_reikin = JOHO_NASHI\<rparr>"
  by (simp_all add: rows_of_examples initial_details_def row_defs)

lemma details_of_examples:
  "parse_property_details example_env (str ''a'') tr =
     (Inr \<lparr>d_kozo = MOKUZO @ [12450, 12497, 12540, 12488], d_shikikin_reikin = str ''1''\<rparr>, tr)"
  "parse_property_details example_env (str ''c'') tr =
     (Inr \<lparr>d_kozo = str ''RC'' @ [36896], d_shikikin_reikin = JOHO_NASHI\<rparr>, tr)"
  "parse_property_details example_env (str ''d'') tr =
     (Inr \<lparr>d_kozo = JOHO_NASHI, d_shikikin_reikin = JOHO_NASHI\<rparr>, tr)"
  by (simp_all add: parse_property_details_def details_try_def example_env_def
      example_site_simps example_parser_simps rows_loop_examples)

lemma example_details_loop:
  "details_loop example_env [info_a, info_b, info_c, info_d] [] tr =
     (Inr [listing_a, listing_c, listing_d],
      tr @ [Get (url info_a)] @ failed_attempt (url info_b) ConnectionError @
        failed_attempt (url info_b) ConnectionError @
        [Get (url info_b), Log ERROR (Error_fetching (url info_b) ConnectionError),
         Log WARNING (Failed_to_fetch_detail (url info_b)),
         Get (url info_c), Get (url info_d)])"
  by (simp add: example_fetches details_of_examples listing_a_def listing_c_def listing_d_def)

lemma example_detail_results:
  "detail_results example_env [info_a, info_b, info_c, info_d] tr =
     [Some (str ''a'',
        \<lparr>d_kozo = MOKUZO @ [12450, 12497, 12540, 12488], d_shikikin_reikin = str ''1''\<rparr>),
      None,
      Some (str ''c'', \<lparr>d_kozo = str ''RC'' @ [36896], d_shikikin_reikin = JOHO_NASHI\<rparr>),
      Some (str ''d'', \<lparr>d_kozo = JOHO_NASHI, d_shikikin_reikin = JOHO_NASHI\<rparr>)]"
  by (simp add: example_fetches details_of_examples)

lemma example_filter:
  "exclusion_filter [listing_a, listing_c, listing_d] = [listing_c, listing_d]"
  by (simp add: exclusion_filter_def listing_a_def listing_c_def listing_d_def update_def
      MOKUZO_def JOHO_NASHI_def sublist_Cons_right str_Nil str_Cons)

lemma check_string_legal:
  "length val \<le> 32767 \<Longrightarrow> \<not> list_ex illegal_character val \<Longrightarrow> check_string val = Inr val"
  by (simp add: check_string_def)

lemma sheet_append_legal:
  "\<forall>val \<in> set row. length val \<le> 32767 \<and> \<not> list_ex illegal_character val \<Longrightarrow>
   sheet_append row = Inr row"
  by (induction row) (simp_all add: check_string_legal)

lemma example_rows:
  "sheet_append (row_of listing_c) = Inr (row_of listing_c)"
  "sheet_append (row_of listing_d) = Inr (row_of listing_d)"
  by (rule sheet_append_legal,
      simp add: row_of_def listing_c_def listing_d_def update_def info_c_def info_d_def
        JOHO_NASHI_def BASE_URL_def illegal_character_def str_Nil str_Cons)+

lemma example_save:
  "save_to_excel example_env [listing_c, listing_d] OUTPUT_EXCEL_FILE tr =
     (None, tr @ [Call_save_to_excel [listing_c, listing_d] OUTPUT_EXCEL_FILE,
        Workbook_save OUTPUT_EXCEL_FILE [header, row_of listing_c, row_of listing_d],
        Log INFO (Saved_data_to OUTPUT_EXCEL_FILE)])"
  by (simp add: save_to_excel_def example_env_def example_site_simps example_rows)

lemma example_scrape: "scrape_and_save example_env tr = (None, tr @ example_run)"
  by (simp add: scrape_and_save_def example_fetches example_details_loop example_filter
      example_save example_run_def parse_index [of example_get, folded example_env_def]
      del: details_loop.simps)


subsection \<open>The pipeline\<close>

lemma extract_property_fields:
  "extract_property unit = Inr p \<Longrightarrow>
     (\<exists>title. find_tag unit (str ''div'') (Some (str ''property_unit-title'')) = Some title \<and>
        bukken_mei p = strip (get_text title)) \<and>
     (\<exists>price_tag. find_tag unit (str ''span'') (Some (str ''price'')) = Some price_tag \<and>
        chinryo p = strip (get_text price_tag)) \<and>
     (\<exists>madori_tag. find_tag unit (str ''span'') (Some (str ''madori'')) = Some madori_tag \<and>
        madori p = strip (get_text madori_tag)) \<and>
     (\<exists>a href. find_tag unit (str ''a'') (Some JS_BUKKEN_GAIYO) = Some a \<and>
        get_attr a (str ''href'') = Some href \<and> url p = BASE_URL @ href)"
  by (auto simp: extract_property_def Let_def split: option.splits list.splits)

lemma base_url_not_default: "BASE_URL @ href \<noteq> JOHO_NASHI"
  by (simp add: BASE_URL_def JOHO_NASHI_def str_Cons)

lemma truncate_update: "property_info.truncate (update p d) = p"
  by (simp add: update_def property_info.truncate_def)

lemma map_filter_merged:
  "List.map_filter merged xs = [update p d. (p, Some (h, d)) \<leftarrow> xs]"
  by (induction xs) (auto simp: List.map_filter_simps merged_def split: option.splits)

lemma merged_from:
  "r \<in> set (List.map_filter merged (zip ps rs)) \<Longrightarrow> \<exists>p \<in> set ps. \<exists>d. r = update p d"
proof -
  assume "r \<in> set (List.map_filter merged (zip ps rs))"
  then obtain p res where pr: "(p, res) \<in> set (zip ps rs)" and m: "merged (p, res) = Some r"
    by (auto simp: List.map_filter_def)
  have "p \<in> set ps"
    using pr by (rule set_zip_leftD)
  moreover have "\<exists>d. r = update p d"
    using m by (auto simp: merged_def split: option.splits)
  ultimately show ?thesis by blast
qed

text \<open>
  A run that finds listings and whose loop over the records returns hands the filtered
  records to the sink, once.
\<close>

lemma scrape_and_save_delivers:
  assumes f: "fetch_page e SEARCH_URL (tr @ [Log INFO Start_scraping]) = (Inr (Some html), tr1)"
    and p: "parse_search_results e html tr1 = (Inr plist, tr2)"
    and ne: "plist \<noteq> []"
    and d: "details_loop e plist [] tr2 = (Inr all_data, tr3)"
  shows "\<exists>r evs. scrape_and_save e tr = (r, tr @ evs) \<and>
     sink_calls evs = [exclusion_filter all_data]"
proof -
  obtain evs0 where evs0: "tr1 = (tr @ [Log INFO Start_scraping]) @ evs0" "sink_calls evs0 = []"
    using fetch_page_emits [of e SEARCH_URL "tr @ [Log INFO Start_scraping]"] f by auto
  obtain evs1 where evs1: "tr2 = tr1 @ evs1" "sink_calls evs1 = []"
    using parse_search_results_emits [of e html tr1] p by auto
  obtain evs2 where evs2: "tr3 = tr2 @ evs2" "sink_calls evs2 = []"
    using details_loop_emits [of e plist "[]" tr2] d by auto
  obtain r4 tr4 where s: "save_to_excel e (exclusion_filter all_data) OUTPUT_EXCEL_FILE tr3 =
      (r4, tr4)"
    by (cases "save_to_excel e (exclusion_filter all_data) OUTPUT_EXCEL_FILE tr3")
  obtain evs3 where evs3:
      "tr4 = tr3 @ Call_save_to_excel (exclusion_filter all_data) OUTPUT_EXCEL_FILE # evs3"
      "sink_calls evs3 = []"
    using save_to_excel_emits [of e "exclusion_filter all_data" OUTPUT_EXCEL_FILE tr3] s by auto
  define evs where "evs = Log INFO Start_scraping # evs0 @ evs1 @ evs2 @
    Call_save_to_excel (exclusion_filter all_data) OUTPUT_EXCEL_FILE # evs3"
  have sc: "sink_calls evs = [exclusion_filter all_data]"
    using evs0(2) evs1(2) evs2(2) evs3(2) by (simp add: evs_def)
  have tr4: "tr4 = tr @ evs"
    using evs0(1) evs1(1) evs2(1) evs3(1) by (simp add: evs_def)
  show ?thesis
  proof (cases r4)
    case None
    then have "scrape_and_save e tr = (None, tr @ (evs @ [Log INFO Scraping_done]))"
      using f p ne d s tr4 by (simp add: scrape_and_save_def)
    moreover have "sink_calls (evs @ [Log INFO Scraping_done]) = [exclusion_filter all_data]"
      using sc by simp
    ultimately show ?thesis by blast
  next
    case (Some ex)
    then have "scrape_and_save e tr = (Some ex, tr @ evs)"
      using f p ne d s tr4 by (simp add: scrape_and_save_def)
    then show ?thesis using sc by blast
  qed
qed

text \<open>
  A run in which an exception leaves the loop over the records raises it and never calls the
  sink: the records fetched before are lost.
\<close>

lemma scrape_and_save_loop_raises:
  assumes f: "fetch_page e SEARCH_URL (tr @ [Log INFO Start_scraping]) = (Inr (Some html), tr1)"
    and p: "parse_search_results e html tr1 = (Inr plist, tr2)"
    and ne: "plist \<noteq> []"
    and d: "details_loop e plist [] tr2 = (Inl ex, tr3)"
  shows "\<exists>evs. scrape_and_save e tr = (Some ex, tr @ evs) \<and> sink_calls evs = [] \<and>
     saves evs = []"
proof -
  obtain evs0 where evs0: "tr1 = (tr @ [Log INFO Start_scraping]) @ evs0" "sink_calls evs0 = []"
      "saves evs0 = []"
    using fetch_page_emits [of e SEARCH_URL "tr @ [Log INFO Start_scraping]"] f by auto
  obtain evs1 where evs1: "tr2 = tr1 @ evs1" "sink_calls evs1 = []" "saves evs1 = []"
    using parse_search_results_emits [of e html tr1] p by auto
  obtain evs2 where evs2: "tr3 = tr2 @ evs2" "sink_calls evs2 = []" "saves evs2 = []"
    using details_loop_emits [of e plist "[]" tr2] d by auto
  have "scrape_and_save e tr = (Some ex, tr @ (Log INFO Start_scraping # evs0 @ evs1 @ evs2))"
    using f p ne d evs0(1) evs1(1) evs2(1) by (simp add: scrape_and_save_def)
  moreover have "sink_calls (Log INFO Start_scraping # evs0 @ evs1 @ evs2) = [] \<and>
      saves (Log INFO Start_scraping # evs0 @ evs1 @ evs2) = []"
    using evs0 evs1 evs2 by simp
  ultimately show ?thesis by blast
qed

text \<open>In every run the sink is called at most once, and then as above.\<close>

lemma scrape_and_save_sink:
  "\<exists>evs. snd (scrape_and_save e tr) = tr @ evs \<and>
     (sink_calls evs = [] \<or>
      (\<exists>html tr1 plist tr2 all_data tr3.
         fetch_page e SEARCH_URL (tr @ [Log INFO Start_scraping]) = (Inr (Some html), tr1) \<and>
         parse_search_results e html tr1 = (Inr plist, tr2) \<and>
         details_loop e plist [] tr2 = (Inr all_data, tr3) \<and>
         sink_calls evs = [exclusion_filter all_data]))"
proof -
  obtain r0 tr1 where f: "fetch_page e SEARCH_URL (tr @ [Log INFO Start_scraping]) = (r0, tr1)"
    by (cases "fetch_page e SEARCH_URL (tr @ [Log INFO Start_scraping])")
  obtain evs0 where evs0: "tr1 = (tr @ [Log INFO Start_scraping]) @ evs0" "sink_calls evs0 = []"
    using fetch_page_emits [of e SEARCH_URL "tr @ [Log INFO Start_scraping]"] f by auto
  have none: ?thesis if "snd (scrape_and_save e tr) = tr1 @ w" and "sink_calls w = []" for w
  proof -
    have "snd (scrape_and_save e tr) = tr @ (Log INFO Start_scraping # evs0 @ w)"
      using that(1) evs0(1) by simp
    moreover have "sink_calls (Log INFO Start_scraping # evs0 @ w) = []"
      using that(2) evs0(2) by simp
    ultimately show ?thesis by blast
  qed
  show ?thesis
  proof (cases r0)
    case (Inl ex)
    then have "snd (scrape_and_save e tr) = tr1 @ []"
      using f by (simp add: scrape_and_save_def)
    then show ?thesis by (rule none) simp
  next
    case (Inr page)
    show ?thesis
    proof (cases page)
      case None
      then have "snd (scrape_and_save e tr) = tr1 @ [Log ERROR Failed_to_get_search_results]"
        using f Inr by (simp add: scrape_and_save_def)
      then show ?thesis by (rule none) simp
    next
      case (Some html)
      obtain r1 tr2 where p: "parse_search_results e html tr1 = (r1, tr2)"
        by (cases "parse_search_results e html tr1")
      obtain evs1 where evs1: "tr2 = tr1 @ evs1" "sink_calls evs1 = []"
        using parse_search_results_emits [of e html tr1] p by auto
      show ?thesis
      proof (cases r1)
        case (Inl ex)
        then have "snd (scrape_and_save e tr) = tr1 @ evs1"
          using f Inr Some p evs1(1) by (simp add: scrape_and_save_def)
        then show ?thesis using evs1(2) by (rule none)
      next
        case plist: (Inr plist)
        show ?thesis
        proof (cases "plist = []")
          case True
          then have "snd (scrape_and_save e tr) = tr1 @ (evs1 @ [Log WARNING No_properties_found])"
            using f Inr Some p plist evs1(1) by (simp add: scrape_and_save_def)
          then show ?thesis by (rule none) (simp add: evs1(2))
        next
          case False
          obtain r2 tr3 where d: "details_loop e plist [] tr2 = (r2, tr3)"
            by (cases "details_loop e plist [] tr2")
          show ?thesis
          proof (cases r2)
            case (Inl ex)
            then obtain evs where "scrape_and_save e tr = (Some ex, tr @ evs)"
                "sink_calls evs = []"
              using scrape_and_save_loop_raises [of e tr html tr1 plist tr2 ex tr3]
                f Inr Some p plist False d by auto
            then show ?thesis by (intro exI [of _ evs]) simp
          next
            case all_data: (Inr all_data)
            then obtain r evs where "scrape_and_save e tr = (r, tr @ evs)"
                "sink_calls evs = [exclusion_filter all_data]"
              using scrape_and_save_delivers [of e tr html tr1 plist tr2 all_data tr3]
                f Inr Some p plist False d by auto
            then show ?thesis
              using f Inr Some p plist d all_data by (intro exI [of _ evs]) auto
          qed
        qed
      qed
    qed
  qed
qed


subsection \<open>Claims about the fetch and the summary extractor, on the example site\<close>

lemma flaky_attempts:
  "attempt (example_site flaky_get) SEARCH_URL [] = Caught (HTTPError 503)"
  "attempt (example_site flaky_get) SEARCH_URL (failed_attempt SEARCH_URL (HTTPError 503)) =
     Caught Timeout"
  "attempt (example_site flaky_get) SEARCH_URL
     (failed_attempt SEARCH_URL (HTTPError 503) @ failed_attempt SEARCH_URL Timeout) =
     Returns (str ''index'')"
  by (simp_all add: attempt_def example_site_simps flaky_get_def failed_attempt_def
      try_result_cases)

lemma flaky_fetch:
  "fetch_page (example_site flaky_get) SEARCH_URL [] =
     (Inr (Some (str ''index'')),
      failed_attempt SEARCH_URL (HTTPError 503) @ failed_attempt SEARCH_URL Timeout @
      [Get SEARCH_URL])"
  using flaky_attempts by (simp add: fetch_page_unroll)

lemma flaky_answers:
  "answers (example_site flaky_get) []
     (failed_attempt SEARCH_URL (HTTPError 503) @ failed_attempt SEARCH_URL Timeout @
      [Get SEARCH_URL]) =
     [Response 503 (str ''busy''), Raises Timeout, Response 200 (str ''index'')]"
  by (simp add: failed_attempt_def example_site_simps flaky_get_def)

lemma refused_attempt: "attempt (example_site refusing_get) u tr = Caught ConnectionError"
  by (simp add: attempt_def example_site_simps refusing_get_def try_result_cases)

lemma missing_attempt: "attempt (example_site missing_get) u tr = Caught (HTTPError 404)"
  by (simp add: attempt_def example_site_simps missing_get_def try_result_cases)

lemma refused_fetch:
  "fetch_page (example_site refusing_get) u tr =
     (Inr None, tr @ failed_attempt u ConnectionError @ failed_attempt u ConnectionError @
        [Get u, Log ERROR (Error_fetching u ConnectionError)])"
  by (simp add: fetch_page_unroll refused_attempt)

lemma missing_fetch:
  "fetch_page (example_site missing_get) u tr =
     (Inr None, tr @ failed_attempt u (HTTPError 404) @ failed_attempt u (HTTPError 404) @
        [Get u, Log ERROR (Error_fetching u (HTTPError 404))])"
  by (simp add: fetch_page_unroll missing_attempt)

text \<open>
  Witness of C1: on a network that answers 503, then times out, then serves the index, the
  index is fetched at the third attempt, after two sleeps of 5 seconds.
\<close>

theorem fetch_page_bounded_retry_witness:
  "answers (example_site flaky_get) []
     (failed_attempt SEARCH_URL (HTTPError 503) @ failed_attempt SEARCH_URL Timeout @
      [Get SEARCH_URL]) =
     [Response 503 (str ''busy''), Raises Timeout, Response 200 (str ''index'')] \<and>
   fetch_page (example_site flaky_get) SEARCH_URL [] =
     (Inr (Some (str ''index'')),
      failed_attempt SEARCH_URL (HTTPError 503) @ failed_attempt SEARCH_URL Timeout @
      [Get SEARCH_URL]) \<and>
   filter (\<lambda>ev. is_get ev \<or> is_sleep ev)
     (failed_attempt SEARCH_URL (HTTPError 503) @ failed_attempt SEARCH_URL Timeout @
      [Get SEARCH_URL]) =
     [Get SEARCH_URL, Sleep 5, Get SEARCH_URL, Sleep 5, Get SEARCH_URL]"
proof -
  obtain evs where evs: "snd (fetch_page (example_site flaky_get) SEARCH_URL []) = [] @ evs"
    and sched: "filter (\<lambda>ev. is_get ev \<or> is_sleep ev) evs =
      retry_schedule SEARCH_URL (length (answers (example_site flaky_get) [] evs))"
    and interval: "RETRY_INTERVAL = 5"
    and final: "case last (answers (example_site flaky_get) [] evs) of
        Response status_code body \<Rightarrow>
          if 400 \<le> status_code \<and> status_code < 600
          then fst (fetch_page (example_site flaky_get) SEARCH_URL []) = Inr None \<and>
            length (answers (example_site flaky_get) [] evs) = MAX_RETRY \<and>
            last evs = Log ERROR (Error_fetching SEARCH_URL (HTTPError status_code))
          else fst (fetch_page (example_site flaky_get) SEARCH_URL []) = Inr (Some body) \<and>
            last evs = Get SEARCH_URL
      | Raises rex \<Rightarrow>
          fst (fetch_page (example_site flaky_get) SEARCH_URL []) = Inr None \<and>
          length (answers (example_site flaky_get) [] evs) = MAX_RETRY \<and>
          last evs = Log ERROR (Error_fetching SEARCH_URL rex)
      | Raises_other ex \<Rightarrow>
          fst (fetch_page (example_site flaky_get) SEARCH_URL []) = Inl ex \<and>
          last evs = Get SEARCH_URL"
    using fetch_page_bounded_retry [of "example_site flaky_get" SEARCH_URL "[]"] by blast
  have e: "evs = failed_attempt SEARCH_URL (HTTPError 503) @ failed_attempt SEARCH_URL Timeout @
      [Get SEARCH_URL]"
    using evs by (simp add: flaky_fetch)
  have "fst (fetch_page (example_site flaky_get) SEARCH_URL []) = Inr (Some (str ''index''))"
    using final unfolding e flaky_answers by simp
  then have "fetch_page (example_site flaky_get) SEARCH_URL [] =
     (Inr (Some (str ''index'')),
      failed_attempt SEARCH_URL (HTTPError 503) @ failed_attempt SEARCH_URL Timeout @
      [Get SEARCH_URL])"
    using evs e by (simp add: prod_eq_iff)
  then show ?thesis
    using sched interval unfolding e flaky_answers by (simp del: filter_append)
qed

text \<open>
  Claim C2 as the specification states it fails: two exhausted fetches, of different URLs and
  with different final errors, return the same value, \<open>None\<close>, which carries neither the
  URL nor the error; these are in the log only.
\<close>

theorem fetch_page_failure_counterexample:
  "fst (fetch_page (example_site refusing_get) (url info_a) []) =
     fst (fetch_page (example_site missing_get) (url info_b) []) \<and>
   fst (fetch_page (example_site refusing_get) (url info_a) []) = Inr None \<and>
   last (snd (fetch_page (example_site refusing_get) (url info_a) [])) =
     Log ERROR (Error_fetching (url info_a) ConnectionError) \<and>
   last (snd (fetch_page (example_site missing_get) (url info_b) [])) =
     Log ERROR (Error_fetching (url info_b) (HTTPError 404)) \<and>
   url info_a \<noteq> url info_b"
  by (simp add: refused_fetch missing_fetch example_urls str_Nil str_Cons)

text \<open>Witness of C2 as amended: a site that answers 404 to all three attempts.\<close>

theorem fetch_page_exhausted_witness:
  "fst (fetch_page (example_site missing_get) (url info_b) []) = Inr None \<and>
   outcomes (example_site missing_get) [] (snd (fetch_page (example_site missing_get) (url info_b) [])) =
     [Caught (HTTPError 404), Caught (HTTPError 404), Caught (HTTPError 404)] \<and>
   last (snd (fetch_page (example_site missing_get) (url info_b) [])) =
     Log ERROR (Error_fetching (url info_b) (HTTPError 404))"
  using fetch_page_exhausted [of "example_site missing_get" "url info_b" "[]"]
  by (simp add: missing_fetch missing_attempt failed_attempt_def)

text \<open>
  Claim C3 fails on the code: \<open>parse_search_results\<close> catches AttributeError only. On an
  index whose second unit has its title, price, layout and station text but no detail link,
  \<^verbatim>\<open>find\<close> returns \<^verbatim>\<open>None\<close>, \<^verbatim>\<open>None["href"]\<close> raises TypeError, and the exception
  leaves \<open>parse_search_results\<close> and \<open>scrape_and_save\<close>: no record is returned, no warning
  is logged, and the two well-formed units are lost with the malformed one.
\<close>

theorem parse_search_results_raises_TypeError:
  "html_parser (example_site broken_get) (str ''broken'') = Inr broken_index_soup \<and>
   find_all broken_index_soup (str ''div'') (Some (str ''property_unit-content'')) =
     [unit_a, unit_no_link, unit_d] \<and>
   extract_property unit_a = Inr info_a \<and> extract_property unit_d = Inr info_d \<and>
   extract_property unit_no_link = Inl TypeError \<and>
   parse_search_results (example_site broken_get) (str ''broken'') [] = (Inl TypeError, []) \<and>
   scrape_and_save (example_site broken_get) [] =
     (Some TypeError, [Log INFO Start_scraping, Get SEARCH_URL])"
proof -
  have "attempt (example_site broken_get) SEARCH_URL tr = Returns (str ''broken'')" for tr
    by (simp add: attempt_def example_site_simps broken_get_def try_result_cases)
  then have "fetch_page (example_site broken_get) SEARCH_URL tr =
      (Inr (Some (str ''broken'')), tr @ [Get SEARCH_URL])" for tr
    by (simp add: fetch_page_unroll)
  then show ?thesis
    by (simp add: scrape_and_save_def parse_broken_index example_site_simps
        example_parser_simps units_of_broken_index extract_unit_a extract_unit_d
        extract_unit_no_link)
qed


subsection \<open>Claims about the pipeline\<close>

lemma sink_calls_example_run: "sink_calls example_run = [[listing_c, listing_d]]"
  by (simp add: example_run_def failed_attempt_def)

lemma example_listing_fields:
  "bukken_mei listing_c = JOHO_NASHI" "kozo listing_c = str ''RC'' @ [36896]"
  "kozo listing_d = JOHO_NASHI" "shikikin_reikin listing_d = JOHO_NASHI"
  "kozo listing_a = MOKUZO @ [12450, 12497, 12540, 12488]"
  "kozo listing_steel = [37444, 39592, 36896]"
  "property_info.truncate listing_a = info_a" "property_info.truncate listing_c = info_c"
  "property_info.truncate listing_d = info_d"
  by (simp_all add: listing_a_def listing_c_def listing_d_def listing_steel_def update_def
      info_c_def property_info.truncate_def)

lemma delivered_fields:
  assumes "extract_property unit = Inr p"
  shows "extracted_from unit (update p d) \<and> url (update p d) \<noteq> JOHO_NASHI"
proof -
  obtain a href where "url p = BASE_URL @ href"
    using extract_property_fields [OF assms] by blast
  then have "url (update p d) \<noteq> JOHO_NASHI"
    using base_url_not_default [of href] by (simp add: update_def)
  moreover have "extracted_from unit (update p d)"
    using extract_property_fields [OF assms] assms
    unfolding extracted_from_def truncate_update by (simp add: update_def)
  ultimately show ?thesis by blast
qed

text \<open>
  Claim C4. Every record handed to the sink (every element of an argument of
  \<open>save_to_excel\<close> in a run) comes from one listing unit of the fetched index page from
  which name, price, layout, stations and link were all extracted (\<open>extracted_from\<close>): its
  name, price and layout are the trimmed texts of the unit's title, price and layout
  elements, and its detail URL is \<open>BASE_URL\<close> followed by the link's \<^verbatim>\<open>href\<close>, which is
  never the default text. So none of the four is ever a default: a unit from which one of
  them could not be extracted is handed over in no run. And there is a run that hands over a
  record whose structure and deposit are both the default.
\<close>

theorem sink_records_extracted:
  "(\<exists>evs. snd (scrape_and_save e tr) = tr @ evs \<and>
     (\<forall>data \<in> set (sink_calls evs). \<forall>r \<in> set data.
        \<exists>html soup unit.
          fst (fetch_page e SEARCH_URL (tr @ [Log INFO Start_scraping])) = Inr (Some html) \<and>
          html_parser e html = Inr soup \<and>
          unit \<in> set (find_all soup (str ''div'') (Some (str ''property_unit-content''))) \<and>
          extracted_from unit r \<and> url r \<noteq> JOHO_NASHI)) \<and>
   (\<exists>e' r. r \<in> set (concat (sink_calls (snd (scrape_and_save e' [])))) \<and>
      kozo r = JOHO_NASHI \<and> shikikin_reikin r = JOHO_NASHI)"
proof
  obtain evs where evs: "snd (scrape_and_save e tr) = tr @ evs" and
    sink: "sink_calls evs = [] \<or>
      (\<exists>html tr1 plist tr2 all_data tr3.
         fetch_page e SEARCH_URL (tr @ [Log INFO Start_scraping]) = (Inr (Some html), tr1) \<and>
         parse_search_results e html tr1 = (Inr plist, tr2) \<and>
         details_loop e plist [] tr2 = (Inr all_data, tr3) \<and>
         sink_calls evs = [exclusion_filter all_data])"
    using scrape_and_save_sink by blast
  have "\<exists>html soup unit.
          fst (fetch_page e SEARCH_URL (tr @ [Log INFO Start_scraping])) = Inr (Some html) \<and>
          html_parser e html = Inr soup \<and>
          unit \<in> set (find_all soup (str ''div'') (Some (str ''property_unit-content''))) \<and>
          extracted_from unit r \<and> url r \<noteq> JOHO_NASHI"
    if data: "data \<in> set (sink_calls evs)" and r: "r \<in> set data" for data r
  proof -
    from data sink obtain html tr1 plist tr2 all_data tr3 where
      f: "fetch_page e SEARCH_URL (tr @ [Log INFO Start_scraping]) = (Inr (Some html), tr1)" and
      p: "parse_search_results e html tr1 = (Inr plist, tr2)" and
      d: "details_loop e plist [] tr2 = (Inr all_data, tr3)" and
      s: "sink_calls evs = [exclusion_filter all_data]"
      by auto
    have "r \<in> set all_data"
      using data r s by (simp add: exclusion_filter_def)
    then have "r \<in> set (List.map_filter merged (zip plist (detail_results e plist tr2)))"
      using details_loop_result [OF d] by simp
    then obtain q dq where q: "q \<in> set plist" and rq: "r = update q dq"
      using merged_from by blast
    obtain soup unit where soup: "html_parser e html = Inr soup" and
      unit: "unit \<in> set (find_all soup (str ''div'') (Some (str ''property_unit-content'')))" and
      ex: "extract_property unit = Inr q"
      using parse_search_results_extracted [OF p q] by blast
    have "fst (fetch_page e SEARCH_URL (tr @ [Log INFO Start_scraping])) = Inr (Some html)"
      using f by simp
    then show ?thesis
      using soup unit delivered_fields [OF ex, of dq] unfolding rq by blast
  qed
  then show "\<exists>evs. snd (scrape_and_save e tr) = tr @ evs \<and>
     (\<forall>data \<in> set (sink_calls evs). \<forall>r \<in> set data.
        \<exists>html soup unit.
          fst (fetch_page e SEARCH_URL (tr @ [Log INFO Start_scraping])) = Inr (Some html) \<and>
          html_parser e html = Inr soup \<and>
          unit \<in> set (find_all soup (str ''div'') (Some (str ''property_unit-content''))) \<and>
          extracted_from unit r \<and> url r \<noteq> JOHO_NASHI)"
    using evs by blast
next
  have "listing_d \<in> set (concat (sink_calls (snd (scrape_and_save example_env []))))"
    by (simp add: example_scrape sink_calls_example_run)
  then show "\<exists>e' r. r \<in> set (concat (sink_calls (snd (scrape_and_save e' [])))) \<and>
      kozo r = JOHO_NASHI \<and> shikikin_reikin r = JOHO_NASHI"
    using example_listing_fields(3,4) by blast
qed

text \<open>
  Witness of C4: the run on the example site hands over the records of C and D; D comes from
  a unit of the index, its URL is not the default, and its structure and deposit are.
\<close>

theorem sink_records_extracted_witness:
  "sink_calls (snd (scrape_and_save example_env [])) = [[listing_c, listing_d]] \<and>
   (\<exists>html soup unit.
      fst (fetch_page example_env SEARCH_URL ([] @ [Log INFO Start_scraping])) =
        Inr (Some html) \<and>
      html_parser example_env html = Inr soup \<and>
      unit \<in> set (find_all soup (str ''div'') (Some (str ''property_unit-content''))) \<and>
      extracted_from unit listing_d \<and> url listing_d \<noteq> JOHO_NASHI) \<and>
   extract_property unit_d = Inr (property_info.truncate listing_d) \<and>
   kozo listing_d = JOHO_NASHI \<and> shikikin_reikin listing_d = JOHO_NASHI"
proof -
  have s: "sink_calls (snd (scrape_and_save example_env [])) = [[listing_c, listing_d]]"
    by (simp add: example_scrape sink_calls_example_run)
  obtain evs where e1: "snd (scrape_and_save example_env []) = [] @ evs" and
    e2: "\<forall>data \<in> set (sink_calls evs). \<forall>r \<in> set data.
        \<exists>html soup unit.
          fst (fetch_page example_env SEARCH_URL ([] @ [Log INFO Start_scraping])) =
            Inr (Some html) \<and>
          html_parser example_env html = Inr soup \<and>
          unit \<in> set (find_all soup (str ''div'') (Some (str ''property_unit-content''))) \<and>
          extracted_from unit r \<and> url r \<noteq> JOHO_NASHI"
    using sink_records_extracted [of example_env "[]", THEN conjunct1] by blast
  have "[listing_c, listing_d] \<in> set (sink_calls evs)"
    using s e1 by simp
  moreover have "listing_d \<in> set [listing_c, listing_d]"
    by simp
  ultimately have "\<exists>html soup unit.
      fst (fetch_page example_env SEARCH_URL ([] @ [Log INFO Start_scraping])) =
        Inr (Some html) \<and>
      html_parser example_env html = Inr soup \<and>
      unit \<in> set (find_all soup (str ''div'') (Some (str ''property_unit-content''))) \<and>
      extracted_from unit listing_d \<and> url listing_d \<noteq> JOHO_NASHI"
    using e2 by blast
  moreover have "extract_property unit_d = Inr (property_info.truncate listing_d)"
    by (simp add: extract_unit_d example_listing_fields)
  ultimately show ?thesis
    using s example_listing_fields(3,4) by blast
qed

lemma parse_search_results_warnings:
  "\<exists>n. snd (parse_search_results e html tr) =
     tr @ replicate n (Log WARNING (Failed_to_extract_property AttributeError))"
proof (cases "html_parser e html")
  case (Inl ex)
  then show ?thesis by (simp add: parse_search_results_def exI [of _ 0])
next
  case (Inr soup)
  then show ?thesis
    using properties_loop_emits
      [of "find_all soup (str ''div'') (Some (str ''property_unit-content''))" "[]" tr]
    by (simp add: parse_search_results_def)
qed

lemma replicate_log_events:
  "requests (replicate n (Log l m)) = []" "sink_calls (replicate n (Log l m)) = []"
  "saves (replicate n (Log l m)) = []"
  by (induction n) simp_all

text \<open>
  Claim C5. If the fetch of the index page returns \<open>None\<close>, the run returns normally after
  exactly \<open>MAX_RETRY\<close> requests, all of \<open>SEARCH_URL\<close>, with no call of the sink and no
  workbook saved; it does nothing after the fetch but log the ERROR line. If the index is
  fetched and \<open>parse_search_results\<close> returns the empty list, the run returns normally and
  its events are the start line, the events of that one fetch (at most \<open>MAX_RETRY\<close>
  requests, all of \<open>SEARCH_URL\<close>), the events of the extraction, which are warnings about
  skipped units and nothing else, and the WARNING line, in this order and nothing else: no
  call of the sink, no workbook, no detail fetch and no second fetch of the index.
\<close>

theorem scrape_and_save_aborts:
  "(fst (fetch_page e SEARCH_URL (tr @ [Log INFO Start_scraping])) = Inr None \<longrightarrow>
      (\<exists>evs. scrape_and_save e tr = (None, tr @ evs) \<and> sink_calls evs = [] \<and> saves evs = [] \<and>
         requests evs = replicate MAX_RETRY SEARCH_URL \<and>
         last evs = Log ERROR Failed_to_get_search_results \<and>
         tr @ evs = snd (fetch_page e SEARCH_URL (tr @ [Log INFO Start_scraping])) @
           [Log ERROR Failed_to_get_search_results])) \<and>
   (\<forall>html tr1.
      fetch_page e SEARCH_URL (tr @ [Log INFO Start_scraping]) = (Inr (Some html), tr1) \<and>
      fst (parse_search_results e html tr1) = Inr [] \<longrightarrow>
      (\<exists>evs_fetch evs_parse.
         tr1 = tr @ Log INFO Start_scraping # evs_fetch \<and>
         snd (parse_search_results e html tr1) = tr1 @ evs_parse \<and>
         scrape_and_save e tr =
           (None, tr @ Log INFO Start_scraping # evs_fetch @ evs_parse @
              [Log WARNING No_properties_found]) \<and>
         requests evs_fetch = replicate (length (requests evs_fetch)) SEARCH_URL \<and>
         length (requests evs_fetch) \<le> MAX_RETRY \<and>
         (\<exists>n. evs_parse = replicate n (Log WARNING (Failed_to_extract_property AttributeError))) \<and>
         requests evs_parse = [] \<and>
         sink_calls (evs_fetch @ evs_parse) = [] \<and> saves (evs_fetch @ evs_parse) = []))"
proof (intro conjI impI allI)
  assume a: "fst (fetch_page e SEARCH_URL (tr @ [Log INFO Start_scraping])) = Inr None"
  obtain evs where evs: "snd (fetch_page e SEARCH_URL (tr @ [Log INFO Start_scraping])) =
      (tr @ [Log INFO Start_scraping]) @ evs" "sink_calls evs = []" "saves evs = []"
      "requests evs = replicate (length (requests evs)) SEARCH_URL" "length (requests evs) = MAX_RETRY"
    using fetch_page_emits [of e SEARCH_URL "tr @ [Log INFO Start_scraping]"] a by auto
  have f: "fetch_page e SEARCH_URL (tr @ [Log INFO Start_scraping]) =
      (Inr None, (tr @ [Log INFO Start_scraping]) @ evs)"
    using a evs(1) by (simp add: prod_eq_iff)
  then have "scrape_and_save e tr =
      (None, tr @ (Log INFO Start_scraping # evs @ [Log ERROR Failed_to_get_search_results]))"
    by (simp add: scrape_and_save_def)
  moreover have "requests evs = replicate MAX_RETRY SEARCH_URL"
    using evs(4,5) by simp
  ultimately show "\<exists>evs. scrape_and_save e tr = (None, tr @ evs) \<and> sink_calls evs = [] \<and>
         saves evs = [] \<and> requests evs = replicate MAX_RETRY SEARCH_URL \<and>
         last evs = Log ERROR Failed_to_get_search_results \<and>
         tr @ evs = snd (fetch_page e SEARCH_URL (tr @ [Log INFO Start_scraping])) @
           [Log ERROR Failed_to_get_search_results]"
    using evs(2,3) f
    by (intro exI [of _ "Log INFO Start_scraping # evs @ [Log ERROR Failed_to_get_search_results]"])
      simp
next
  fix html tr1
  assume a: "fetch_page e SEARCH_URL (tr @ [Log INFO Start_scraping]) = (Inr (Some html), tr1) \<and>
      fst (parse_search_results e html tr1) = Inr []"
  obtain evs where evs: "tr1 = (tr @ [Log INFO Start_scraping]) @ evs" "sink_calls evs = []"
      "saves evs = []" "requests evs = replicate (length (requests evs)) SEARCH_URL"
      "length (requests evs) \<le> MAX_RETRY"
    using fetch_page_emits [of e SEARCH_URL "tr @ [Log INFO Start_scraping]"] a by auto
  obtain n where n: "snd (parse_search_results e html tr1) =
      tr1 @ replicate n (Log WARNING (Failed_to_extract_property AttributeError))"
    using parse_search_results_warnings by blast
  define evs2 where "evs2 = replicate n (Log WARNING (Failed_to_extract_property AttributeError))"
  have evs2: "snd (parse_search_results e html tr1) = tr1 @ evs2" "requests evs2 = []"
      "sink_calls evs2 = []" "saves evs2 = []"
      "\<exists>n. evs2 = replicate n (Log WARNING (Failed_to_extract_property AttributeError))"
    using n by (auto simp: evs2_def replicate_log_events)
  have "parse_search_results e html tr1 = (Inr [], tr1 @ evs2)"
    using a evs2(1) by (simp add: prod_eq_iff)
  then have "scrape_and_save e tr =
      (None, tr @ Log INFO Start_scraping # evs @ evs2 @ [Log WARNING No_properties_found])"
    using a evs(1) by (simp add: scrape_and_save_def)
  then show "\<exists>evs_fetch evs_parse.
         tr1 = tr @ Log INFO Start_scraping # evs_fetch \<and>
         snd (parse_search_results e html tr1) = tr1 @ evs_parse \<and>
         scrape_and_save e tr =
           (None, tr @ Log INFO Start_scraping # evs_fetch @ evs_parse @
              [Log WARNING No_properties_found]) \<and>
         requests evs_fetch = replicate (length (requests evs_fetch)) SEARCH_URL \<and>
         length (requests evs_fetch) \<le> MAX_RETRY \<and>
         (\<exists>n. evs_parse = replicate n (Log WARNING (Failed_to_extract_property AttributeError))) \<and>
         requests evs_parse = [] \<and>
         sink_calls (evs_fetch @ evs_parse) = [] \<and> saves (evs_fetch @ evs_parse) = []"
    using evs evs2 by (intro exI [of _ evs] exI [of _ evs2]) simp
qed

text \<open>
  Witness of C5: a network that refuses every connection, and a site whose index has no
  units.
\<close>

theorem scrape_and_save_aborts_witness:
  "fst (fetch_page (example_site refusing_get) SEARCH_URL ([] @ [Log INFO Start_scraping])) =
     Inr None \<and>
   scrape_and_save (example_site refusing_get) [] =
     (None, Log INFO Start_scraping # failed_attempt SEARCH_URL ConnectionError @
        failed_attempt SEARCH_URL ConnectionError @
        [Get SEARCH_URL, Log ERROR (Error_fetching SEARCH_URL ConnectionError),
         Log ERROR Failed_to_get_search_results]) \<and>
   fetch_page (example_site empty_get) SEARCH_URL ([] @ [Log INFO Start_scraping]) =
     (Inr (Some (str ''empty'')), [Log INFO Start_scraping, Get SEARCH_URL]) \<and>
   fst (parse_search_results (example_site empty_get) (str ''empty'')
     [Log INFO Start_scraping, Get SEARCH_URL]) = Inr [] \<and>
   (\<exists>evs_fetch evs_parse.
      [Log INFO Start_scraping, Get SEARCH_URL] = [] @ Log INFO Start_scraping # evs_fetch \<and>
      scrape_and_save (example_site empty_get) [] =
        (None, [] @ Log INFO Start_scraping # evs_fetch @ evs_parse @
           [Log WARNING No_properties_found]) \<and>
      requests evs_parse = []) \<and>
   scrape_and_save (example_site empty_get) [] =
     (None, [Log INFO Start_scraping, Get SEARCH_URL, Log WARNING No_properties_found])"
proof -
  have "attempt (example_site empty_get) SEARCH_URL tr = Returns (str ''empty'')" for tr
    by (simp add: attempt_def example_site_simps empty_get_def try_result_cases)
  then have f: "fetch_page (example_site empty_get) SEARCH_URL tr =
      (Inr (Some (str ''empty'')), tr @ [Get SEARCH_URL])" for tr
    by (simp add: fetch_page_unroll)
  have h1: "fst (fetch_page (example_site refusing_get) SEARCH_URL
      ([] @ [Log INFO Start_scraping])) = Inr None"
    by (simp add: refused_fetch)
  have h2: "fetch_page (example_site empty_get) SEARCH_URL ([] @ [Log INFO Start_scraping]) =
      (Inr (Some (str ''empty'')), [Log INFO Start_scraping, Get SEARCH_URL]) \<and>
    fst (parse_search_results (example_site empty_get) (str ''empty'')
      [Log INFO Start_scraping, Get SEARCH_URL]) = Inr []"
    by (simp add: f parse_empty_index)
  have run: "scrape_and_save (example_site empty_get) [] =
     (None, [Log INFO Start_scraping, Get SEARCH_URL, Log WARNING No_properties_found])"
    by (simp add: scrape_and_save_def f parse_empty_index)
  note t1 = scrape_and_save_aborts [of "example_site refusing_get" "[]", THEN conjunct1,
      THEN mp, OF h1]
  note t2 = scrape_and_save_aborts [of "example_site empty_get" "[]", THEN conjunct2,
      THEN spec, THEN spec, THEN mp, OF h2]
  have r1: "scrape_and_save (example_site refusing_get) [] =
     (None, Log INFO Start_scraping # failed_attempt SEARCH_URL ConnectionError @
        failed_attempt SEARCH_URL ConnectionError @
        [Get SEARCH_URL, Log ERROR (Error_fetching SEARCH_URL ConnectionError),
         Log ERROR Failed_to_get_search_results])"
    using t1 by (auto simp: refused_fetch)
  show ?thesis
    using h1 h2 run r1 t2 by blast
qed

lemma length_detail_results_le: "length (detail_results e ps tr) \<le> length ps"
proof (induction ps arbitrary: tr)
  case Nil
  show ?case by simp
next
  case (Cons p ps)
  show ?case
    using Cons.IH le_SucI
    by (auto split: prod.splits option.splits sum.splits)
qed

text \<open>
  Claim C6, as amended. In a run that fetches the index, extracts a non-empty list of
  records and whose loop over the records returns (no exception leaves it: every detail
  fetch returns a page or \<open>None\<close>, and the parser accepts every fetched page), the sink is
  called exactly once, with the records whose detail fetch succeeded, each merged with the
  details parsed from its fetched page, in the order of the extraction, less those that the
  exclusion filter removes. A record whose detail fetch returned \<open>None\<close> is not among
  them, with default details or otherwise. (\<open>detail_results\<close> holds the result for each
  record, one per record.)
\<close>

theorem detail_failure_isolation:
  assumes "fetch_page e SEARCH_URL (tr @ [Log INFO Start_scraping]) = (Inr (Some html), tr1)"
    and "parse_search_results e html tr1 = (Inr plist, tr2)"
    and "plist \<noteq> []"
    and "details_loop e plist [] tr2 = (Inr all_data, tr3)"
  shows "\<exists>r evs. scrape_and_save e tr = (r, tr @ evs) \<and>
     length (detail_results e plist tr2) = length plist \<and>
     (\<forall>h d. Some (h, d) \<in> set (detail_results e plist tr2) \<longrightarrow>
        fst (parse_property_details e h []) = Inr d) \<and>
     all_data = [update p d. (p, Some (h, d)) \<leftarrow> zip plist (detail_results e plist tr2)] \<and>
     sink_calls evs = [exclusion_filter all_data]"
  using scrape_and_save_delivers [OF assms] details_loop_result [OF assms(4)]
    detail_results_parsed [of _ _ e plist tr2]
  by (simp add: map_filter_merged)

text \<open>
  Witness of C6 as amended: on the example site the detail fetch of B fails, those of A, C
  and D succeed, A is wooden, and the sink receives C and D.
\<close>

theorem detail_failure_isolation_witness:
  "detail_results example_env [info_a, info_b, info_c, info_d]
     [Log INFO Start_scraping, Get SEARCH_URL,
      Log WARNING (Failed_to_extract_property AttributeError)] =
     [Some (str ''a'',
        \<lparr>d_kozo = MOKUZO @ [12450, 12497, 12540, 12488], d_shikikin_reikin = str ''1''\<rparr>),
      None,
      Some (str ''c'', \<lparr>d_kozo = str ''RC'' @ [36896], d_shikikin_reikin = JOHO_NASHI\<rparr>),
      Some (str ''d'', \<lparr>d_kozo = JOHO_NASHI, d_shikikin_reikin = JOHO_NASHI\<rparr>)] \<and>
   (\<exists>r evs. scrape_and_save example_env [] = (r, [] @ evs) \<and>
      sink_calls evs = [exclusion_filter [listing_a, listing_c, listing_d]]) \<and>
   exclusion_filter [listing_a, listing_c, listing_d] = [listing_c, listing_d]"
proof -
  have h1: "fetch_page example_env SEARCH_URL ([] @ [Log INFO Start_scraping]) =
      (Inr (Some (str ''index'')), [Log INFO Start_scraping, Get SEARCH_URL])"
    by (simp add: example_fetches)
  have h2: "parse_search_results example_env (str ''index'')
      [Log INFO Start_scraping, Get SEARCH_URL] =
      (Inr [info_a, info_b, info_c, info_d],
       [Log INFO Start_scraping, Get SEARCH_URL,
        Log WARNING (Failed_to_extract_property AttributeError)])"
    by (simp add: parse_index [of example_get, folded example_env_def])
  have h3: "[info_a, info_b, info_c, info_d] \<noteq> []"
    by simp
  note h4 = example_details_loop [of "[Log INFO Start_scraping, Get SEARCH_URL,
        Log WARNING (Failed_to_extract_property AttributeError)]"]
  obtain r evs where "scrape_and_save example_env [] = (r, [] @ evs)"
      "sink_calls evs = [exclusion_filter [listing_a, listing_c, listing_d]]"
    using detail_failure_isolation [OF h1 h2 h3 h4] by blast
  then show ?thesis
    using example_detail_results example_filter by blast
qed

text \<open>
  Claim C6 as the specification states it fails: in the run on the example site, in which
  the detail fetch of B fails and the others succeed, the detail fetch of A succeeds and A is
  merged, but A is not handed to the sink: its structure is wooden.
\<close>

lemma listing_a_not_delivered: "listing_a \<notin> set [listing_c, listing_d]"
proof -
  have "chinryo listing_a = str ''8.5''" "chinryo listing_c = str ''12''"
    "chinryo listing_d = str ''9''"
    by (simp_all add: listing_a_def listing_c_def listing_d_def update_def info_a_def
        info_c_def info_d_def)
  moreover have "str ''8.5'' \<noteq> str ''12''" "str ''8.5'' \<noteq> str ''9''"
    by (simp_all add: str_Nil str_Cons)
  ultimately have "listing_a \<noteq> listing_c" "listing_a \<noteq> listing_d"
    by metis+
  then show ?thesis by simp
qed

theorem detail_failure_isolation_counterexample:
  "fetch_page example_env (url info_a)
     [Log INFO Start_scraping, Get SEARCH_URL,
      Log WARNING (Failed_to_extract_property AttributeError)] =
     (Inr (Some (str ''a'')),
      [Log INFO Start_scraping, Get SEARCH_URL,
       Log WARNING (Failed_to_extract_property AttributeError), Get (url info_a)]) \<and>
   fst (fetch_page example_env (url info_b) []) = Inr None \<and>
   fst (parse_property_details example_env (str ''a'') []) =
     Inr \<lparr>d_kozo = MOKUZO @ [12450, 12497, 12540, 12488], d_shikikin_reikin = str ''1''\<rparr> \<and>
   update info_a
     \<lparr>d_kozo = MOKUZO @ [12450, 12497, 12540, 12488], d_shikikin_reikin = str ''1''\<rparr> =
     listing_a \<and>
   sink_calls (snd (scrape_and_save example_env [])) = [[listing_c, listing_d]] \<and>
   listing_a \<notin> set [listing_c, listing_d]"
  using listing_a_not_delivered
  by (simp add: example_fetches details_of_examples example_scrape
      sink_calls_example_run listing_a_def [symmetric])

text \<open>
  What the amended claim leaves out: on the example site with the page of C replaced by
  markup that the parser rejects, \<^verbatim>\<open>BeautifulSoup\<close> raises outside the \<^verbatim>\<open>try\<close> of
  \<open>parse_property_details\<close>, the exception leaves the loop and the run, and the sink is
  not called, though the detail fetches of A and C succeeded.
\<close>

lemma rejected_page_run:
  "\<exists>evs. scrape_and_save (example_site rejected_get) [] = (Some ParserRejectedMarkup, evs) \<and>
     sink_calls evs = [] \<and> saves evs = []"
proof -
  have ans: "rejected_get tr SEARCH_URL = Response 200 (str ''index'')"
    "rejected_get tr (url info_a) = Response 200 (str ''a'')"
    "rejected_get tr (url info_b) = Raises ConnectionError"
    "rejected_get tr (url info_c) = Response 200 (str ''rejected'')" for tr
    by (simp_all add: rejected_get_def example_get_def example_urls SEARCH_URL_def BASE_URL_def
        str_Nil str_Cons)
  have f: "fetch_page (example_site rejected_get) SEARCH_URL tr =
      (Inr (Some (str ''index'')), tr @ [Get SEARCH_URL])"
    "fetch_page (example_site rejected_get) (url info_a) tr =
      (Inr (Some (str ''a'')), tr @ [Get (url info_a)])"
    "fetch_page (example_site rejected_get) (url info_b) tr =
      (Inr None, tr @ failed_attempt (url info_b) ConnectionError @
        failed_attempt (url info_b) ConnectionError @
        [Get (url info_b), Log ERROR (Error_fetching (url info_b) ConnectionError)])"
    "fetch_page (example_site rejected_get) (url info_c) tr =
      (Inr (Some (str ''rejected'')), tr @ [Get (url info_c)])" for tr
    by (simp_all add: fetch_page_unroll attempt_def example_site_simps ans try_result_cases)
  have pa: "parse_property_details (example_site rejected_get) (str ''a'') tr =
      (Inr \<lparr>d_kozo = MOKUZO @ [12450, 12497, 12540, 12488], d_shikikin_reikin = str ''1''\<rparr>, tr)"
    for tr
    by (simp add: parse_property_details_def details_try_def example_site_simps
        example_parser_simps rows_loop_examples)
  have pc: "parse_property_details (example_site rejected_get) (str ''rejected'') tr =
      (Inl ParserRejectedMarkup, tr)" for tr
    by (simp add: parse_property_details_raises example_site_simps example_parser_simps)
  obtain tr3 where d: "details_loop (example_site rejected_get) [info_a, info_b, info_c, info_d] []
      [Log INFO Start_scraping, Get SEARCH_URL,
       Log WARNING (Failed_to_extract_property AttributeError)] = (Inl ParserRejectedMarkup, tr3)"
    by (simp add: f pa pc)
  show ?thesis
    using scrape_and_save_loop_raises [of "example_site rejected_get" "[]" "str ''index''"
        "[Log INFO Start_scraping, Get SEARCH_URL]" "[info_a, info_b, info_c, info_d]"
        "[Log INFO Start_scraping, Get SEARCH_URL,
          Log WARNING (Failed_to_extract_property AttributeError)]" ParserRejectedMarkup tr3]
      d
    by (simp add: f parse_index)
qed

text \<open>
  Likewise where \<^verbatim>\<open>requests.get\<close> raises an exception that is not a RequestException: it
  leaves \<open>fetch_page\<close> at the first attempt and the run with it.
\<close>

lemma unparsable_url_run:
  "fetch_page (example_site unparsable_get) u tr = (Inl LocationParseError, tr @ [Get u])"
  "scrape_and_save (example_site unparsable_get) [] =
     (Some LocationParseError, [Log INFO Start_scraping, Get SEARCH_URL])"
proof -
  show f: "fetch_page (example_site unparsable_get) u tr =
      (Inl LocationParseError, tr @ [Get u])" for u tr
    by (simp add: fetch_page_unroll attempt_def example_site_simps unparsable_get_def
        try_result_cases)
  show "scrape_and_save (example_site unparsable_get) [] =
     (Some LocationParseError, [Log INFO Start_scraping, Get SEARCH_URL])"
    by (simp add: scrape_and_save_def f)
qed

subsection \<open>The exclusion filter\<close>

lemma wooden_examples:
  "sublist MOKUZO (MOKUZO @ [12450, 12497, 12540, 12488])"
  "\<not> sublist MOKUZO (str ''RC'' @ [36896])"
  "\<not> sublist MOKUZO [37444, 39592, 36896]"
  by (simp_all add: MOKUZO_def sublist_Cons_right str_def)

text \<open>
  Claim C7. The filter keeps, in order, exactly the records whose structure has no
  decomposition \<open>pre @ MOKUZO @ suf\<close>, that is, does not contain U+6728 U+9020; of three
  records with the structures U+6728 U+9020 U+30A2 U+30D1 U+30FC U+30C8, RC U+9020 and
  U+9244 U+9AA8 U+9020 it keeps the last two.
\<close>

theorem exclusion_filter_wooden:
  "exclusion_filter rs = filter (\<lambda>p. \<not> (\<exists>pre suf. kozo p = pre @ MOKUZO @ suf)) rs \<and>
   (kozo a = MOKUZO @ [12450, 12497, 12540, 12488] \<and> kozo b = str ''RC'' @ [36896] \<and>
    kozo c = [37444, 39592, 36896] \<longrightarrow> exclusion_filter [a, b, c] = [b, c])"
proof
  show "exclusion_filter rs = filter (\<lambda>p. \<not> (\<exists>pre suf. kozo p = pre @ MOKUZO @ suf)) rs"
    by (simp add: exclusion_filter_def sublist_def)
  show "kozo a = MOKUZO @ [12450, 12497, 12540, 12488] \<and> kozo b = str ''RC'' @ [36896] \<and>
    kozo c = [37444, 39592, 36896] \<longrightarrow> exclusion_filter [a, b, c] = [b, c]"
    using wooden_examples by (simp add: exclusion_filter_def)
qed

text \<open>Witness of C7: the wooden flat A, the reinforced-concrete C, and a steel-frame record.\<close>

theorem exclusion_filter_wooden_witness:
  "kozo listing_a = MOKUZO @ [12450, 12497, 12540, 12488] \<and>
   kozo listing_c = str ''RC'' @ [36896] \<and> kozo listing_steel = [37444, 39592, 36896] \<and>
   exclusion_filter [listing_a, listing_c, listing_steel] = [listing_c, listing_steel]"
proof -
  have h: "kozo listing_a = MOKUZO @ [12450, 12497, 12540, 12488] \<and>
      kozo listing_c = str ''RC'' @ [36896] \<and> kozo listing_steel = [37444, 39592, 36896]"
    using example_listing_fields(2,5,6) by blast
  show ?thesis
    using exclusion_filter_wooden [of "[]" listing_a listing_c listing_steel,
        THEN conjunct2, THEN mp, OF h] h by blast
qed

subsection \<open>The detail extractor\<close>

lemma rows_loop_step:
  "\<exists>d'. rows_loop (row # rest) d = rows_loop rest d' \<and>
     d_kozo d' = (if is_structure_row row then row_value row else d_kozo d)"
proof (cases "is_structure_row row")
  case True
  then have "rows_loop (row # rest) d = rows_loop rest (d\<lparr>d_kozo := row_value row\<rparr>)"
    by (auto simp: is_structure_row_def row_value_def Let_def split: option.splits)
  then show ?thesis
    using True by (intro exI [of _ "d\<lparr>d_kozo := row_value row\<rparr>"]) simp
next
  case False
  then have "rows_loop (row # rest) d = rows_loop rest d \<or>
      (\<exists>v. rows_loop (row # rest) d = rows_loop rest (d\<lparr>d_shikikin_reikin := v\<rparr>))"
    by (auto simp: is_structure_row_def Let_def split: option.splits)
  then show ?thesis
    using False by auto
qed

lemma rows_loop_kozo:
  "d_kozo (rows_loop rows d) =
     (if filter is_structure_row rows = [] then d_kozo d
      else row_value (last (filter is_structure_row rows)))"
proof (induction rows arbitrary: d)
  case Nil
  show ?case by simp
next
  case (Cons row rows)
  obtain d' where d': "rows_loop (row # rows) d = rows_loop rows d'"
      "d_kozo d' = (if is_structure_row row then row_value row else d_kozo d)"
    using rows_loop_step by blast
  show ?case
    unfolding d'(1) Cons.IH [of d'] d'(2) by simp
qed

text \<open>
  Claim C8, as amended. On a document that \<^verbatim>\<open>BeautifulSoup\<close> accepts,
  \<open>parse_property_details\<close> does not raise. If \<^verbatim>\<open>select\<close> raises, the warning is logged
  and both fields returned are the default; otherwise no event is emitted, the structure
  returned is the default when the selected rows hold no structure row, and else it is the
  trimmed text of the value cell of the last structure row (a later structure row overwrites
  an earlier one).
\<close>

theorem parse_property_details_structure:
  "html_parser e html = Inr soup \<longrightarrow>
     (\<exists>d. fst (parse_property_details e html tr) = Inr d) \<and>
     (select_raises e soup = Some ex \<longrightarrow>
        parse_property_details e html tr =
          (Inr initial_details, tr @ [Log WARNING (Failed_to_parse_property_details ex)]) \<and>
        initial_details = \<lparr>d_kozo = JOHO_NASHI, d_shikikin_reikin = JOHO_NASHI\<rparr>) \<and>
     (select_raises e soup = None \<longrightarrow>
        (\<exists>d. parse_property_details e html tr = (Inr d, tr) \<and>
           d_kozo d =
             (if filter is_structure_row (select_data_table_tr soup) = [] then JOHO_NASHI
              else row_value (last (filter is_structure_row (select_data_table_tr soup))))))"
  by (cases "select_raises e soup")
    (simp_all add: parse_property_details_def details_try_def rows_loop_kozo initial_details_def)

lemma structure_rows_of_soup_c:
  "filter is_structure_row (select_data_table_tr soup_c) = [row_steel, row_rc]"
  "row_value row_steel = [37444, 39592, 36896]" "row_value row_rc = str ''RC'' @ [36896]"
  "filter is_structure_row (select_data_table_tr soup_d) = []"
  by (simp_all add: rows_of_examples is_structure_row_def row_value_def row_defs)

text \<open>
  Witness of C8 as amended: with \<^verbatim>\<open>select\<close> raising, the defaults and a warning; on the
  page without a table, the default; on the page of C, the value of its last structure row,
  trimmed.
\<close>

theorem parse_property_details_structure_witness:
  "html_parser no_css_env (str ''c'') = Inr soup_c \<and>
   parse_property_details no_css_env (str ''c'') [] =
     (Inr initial_details,
      [] @ [Log WARNING (Failed_to_parse_property_details NotImplementedError)]) \<and>
   html_parser example_env (str ''d'') = Inr soup_d \<and>
   filter is_structure_row (select_data_table_tr soup_d) = [] \<and>
   (\<exists>d. parse_property_details example_env (str ''d'') [] = (Inr d, []) \<and>
      d_kozo d = JOHO_NASHI) \<and>
   html_parser example_env (str ''c'') = Inr soup_c \<and>
   filter is_structure_row (select_data_table_tr soup_c) = [row_steel, row_rc] \<and>
   row_rc = data_row (str '' '' @ KOZO @ str '' '') (str '' RC'' @ [36896, 32]) \<and>
   (\<exists>d. parse_property_details example_env (str ''c'') [] = (Inr d, []) \<and>
      d_kozo d = str ''RC'' @ [36896])"
proof -
  have p1: "html_parser no_css_env (str ''c'') = Inr soup_c"
    by (simp add: no_css_env_def example_env_def example_site_simps example_parser_simps)
  have p2: "html_parser example_env (str ''d'') = Inr soup_d"
    "html_parser example_env (str ''c'') = Inr soup_c"
    by (simp_all add: example_env_def example_site_simps example_parser_simps)
  have h1: "select_raises no_css_env soup_c = Some NotImplementedError"
    by (simp add: no_css_env_def)
  have h2: "select_raises example_env soup = None" for soup
    by (simp add: example_env_def example_site_simps)
  note t1 = parse_property_details_structure [of no_css_env "str ''c''" soup_c "[]"
      NotImplementedError, THEN mp, OF p1, THEN conjunct2, THEN conjunct1, THEN mp, OF h1,
      THEN conjunct1]
  note t2 = parse_property_details_structure [of example_env "str ''d''" soup_d "[]"
      NotImplementedError, THEN mp, OF p2(1), THEN conjunct2, THEN conjunct2, THEN mp, OF h2]
  note t3 = parse_property_details_structure [of example_env "str ''c''" soup_c "[]"
      NotImplementedError, THEN mp, OF p2(2), THEN conjunct2, THEN conjunct2, THEN mp, OF h2]
  have "\<exists>d. parse_property_details example_env (str ''d'') [] = (Inr d, []) \<and>
      d_kozo d = JOHO_NASHI"
    using t2 by (simp add: structure_rows_of_soup_c)
  moreover have "\<exists>d. parse_property_details example_env (str ''c'') [] = (Inr d, []) \<and>
      d_kozo d = str ''RC'' @ [36896]"
    using t3 by (simp add: structure_rows_of_soup_c)
  ultimately show ?thesis
    using t1 p1 p2 structure_rows_of_soup_c(1,4) by (simp add: row_rc_def)
qed

text \<open>
  Claim C8 as the specification states it fails: the page of C has two rows whose key
  contains the structure key; the structure returned is the value of the second, not the
  value paired with the first.
\<close>

theorem parse_property_details_first_row_counterexample:
  "html_parser example_env (str ''c'') = Inr soup_c \<and>
   select_raises example_env soup_c = None \<and>
   select_data_table_tr soup_c = [row_steel, data_row (str ''area'') (str ''40''), row_rc] \<and>
   is_structure_row row_steel \<and> row_value row_steel = [37444, 39592, 36896] \<and>
   fst (parse_property_details example_env (str ''c'') []) =
     Inr \<lparr>d_kozo = str ''RC'' @ [36896], d_shikikin_reikin = JOHO_NASHI\<rparr> \<and>
   str ''RC'' @ [36896] \<noteq> row_value row_steel"
proof -
  have a: "is_structure_row row_steel"
    by (simp add: is_structure_row_def row_defs)
  have b: "html_parser example_env (str ''c'') = Inr soup_c \<and>
      select_raises example_env soup_c = None"
    by (simp add: example_env_def example_site_simps example_parser_simps)
  have c: "fst (parse_property_details example_env (str ''c'') []) =
      Inr \<lparr>d_kozo = str ''RC'' @ [36896], d_shikikin_reikin = JOHO_NASHI\<rparr>"
    by (simp add: details_of_examples)
  have d: "str ''RC'' @ [36896] \<noteq> [37444, 39592, 36896]"
    by (simp add: str_Nil str_Cons)
  show ?thesis
    using a b c d structure_rows_of_soup_c(2) rows_of_examples(2) by simp
qed

text \<open>
  What the amended claim leaves out: \<^verbatim>\<open>BeautifulSoup(html, "html.parser")\<close> stands before
  the \<^verbatim>\<open>try\<close>, so on markup that the parser rejects \<open>parse_property_details\<close> raises,
  with no warning and no defaults.
\<close>

lemma parse_property_details_rejected:
  "parse_property_details example_env (str ''rejected'') tr = (Inl ParserRejectedMarkup, tr)"
  by (simp add: parse_property_details_raises example_env_def example_site_simps
      example_parser_simps)

subsection \<open>Determinism\<close>

text \<open>
  Claim C9. Two runs, from any two histories and in two environments with the same parser
  and the same behaviour of \<^verbatim>\<open>select\<close>, in which the network and the disk answer alike
  from the start of the run on, return the same result and emit the same events: the same
  requests, the same log lines, the same call of the sink with the same records and the same
  workbook. Nothing of an earlier run, which is part of the history, has any influence.
\<close>

theorem scrape_and_save_deterministic:
  assumes parser: "html_parser e1 = html_parser e2"
    and sel: "select_raises e1 = select_raises e2"
    and net: "\<And>s u. requests_get e1 (tr1 @ s) u = requests_get e2 (tr2 @ s) u"
    and disk: "\<And>s f. workbook_save e1 (tr1 @ s) f = workbook_save e2 (tr2 @ s) f"
  shows "\<exists>r evs. scrape_and_save e1 tr1 = (r, tr1 @ evs) \<and> scrape_and_save e2 tr2 = (r, tr2 @ evs)"
proof -
  define s0 where "s0 = [Log INFO Start_scraping]"
  have "\<And>s. requests_get e1 ((tr1 @ s0) @ s) SEARCH_URL = requests_get e2 ((tr2 @ s0) @ s) SEARCH_URL"
    using net by simp
  then obtain r0 evs0 where f: "fetch_page e1 SEARCH_URL (tr1 @ s0) = (r0, (tr1 @ s0) @ evs0)"
      "fetch_page e2 SEARCH_URL (tr2 @ s0) = (r0, (tr2 @ s0) @ evs0)"
    using fetch_page_relocate [of e1 "tr1 @ s0" SEARCH_URL e2 "tr2 @ s0"] by blast
  define s1 where "s1 = s0 @ evs0"
  show ?thesis
  proof (cases r0)
    case (Inl ex)
    then have "scrape_and_save e1 tr1 = (Some ex, tr1 @ s1) \<and>
       scrape_and_save e2 tr2 = (Some ex, tr2 @ s1)"
      using f by (simp add: scrape_and_save_def s0_def s1_def)
    then show ?thesis by blast
  next
    case page: (Inr page)
    show ?thesis
    proof (cases page)
      case None
      then have "scrape_and_save e1 tr1 =
          (None, tr1 @ (s1 @ [Log ERROR Failed_to_get_search_results])) \<and>
        scrape_and_save e2 tr2 = (None, tr2 @ (s1 @ [Log ERROR Failed_to_get_search_results]))"
        using f page by (simp add: scrape_and_save_def s0_def s1_def)
      then show ?thesis by blast
    next
      case (Some html)
      obtain r1 evs1 where p: "parse_search_results e1 html (tr1 @ s1) = (r1, (tr1 @ s1) @ evs1)"
          "parse_search_results e2 html (tr2 @ s1) = (r1, (tr2 @ s1) @ evs1)"
        using parse_search_results_relocate [OF parser] by blast
      define s2 where "s2 = s1 @ evs1"
      show ?thesis
      proof (cases r1)
        case (Inl ex)
        then have "scrape_and_save e1 tr1 = (Some ex, tr1 @ s2) \<and>
            scrape_and_save e2 tr2 = (Some ex, tr2 @ s2)"
          using f page Some p by (simp add: scrape_and_save_def s0_def s1_def s2_def)
        then show ?thesis by blast
      next
        case plist: (Inr plist)
        show ?thesis
        proof (cases "plist = []")
          case True
          then have "scrape_and_save e1 tr1 =
              (None, tr1 @ (s2 @ [Log WARNING No_properties_found])) \<and>
            scrape_and_save e2 tr2 = (None, tr2 @ (s2 @ [Log WARNING No_properties_found]))"
            using f page Some p plist by (simp add: scrape_and_save_def s0_def s1_def s2_def)
          then show ?thesis by blast
        next
          case False
          have "\<And>s u. requests_get e1 ((tr1 @ s2) @ s) u = requests_get e2 ((tr2 @ s2) @ s) u"
            using net by simp
          then obtain r2 evs2 where
              d: "details_loop e1 plist [] (tr1 @ s2) = (r2, (tr1 @ s2) @ evs2)"
              "details_loop e2 plist [] (tr2 @ s2) = (r2, (tr2 @ s2) @ evs2)"
            using details_loop_relocate [OF parser sel, of "tr1 @ s2" "tr2 @ s2" plist "[]"]
            by blast
          define s3 where "s3 = s2 @ evs2"
          show ?thesis
          proof (cases r2)
            case (Inl ex)
            then have "scrape_and_save e1 tr1 = (Some ex, tr1 @ s3) \<and>
                scrape_and_save e2 tr2 = (Some ex, tr2 @ s3)"
              using f page Some p plist False d
              by (simp add: scrape_and_save_def s0_def s1_def s2_def s3_def)
            then show ?thesis by blast
          next
            case all_data: (Inr all_data)
            have "\<And>s f. workbook_save e1 ((tr1 @ s3) @ s) f = workbook_save e2 ((tr2 @ s3) @ s) f"
              using disk by simp
            then obtain r3 evs3 where
                s: "save_to_excel e1 (exclusion_filter all_data) OUTPUT_EXCEL_FILE (tr1 @ s3) =
                  (r3, (tr1 @ s3) @ evs3)"
                "save_to_excel e2 (exclusion_filter all_data) OUTPUT_EXCEL_FILE (tr2 @ s3) =
                  (r3, (tr2 @ s3) @ evs3)"
              using save_to_excel_relocate [of e1 "tr1 @ s3" e2 "tr2 @ s3"] by blast
            show ?thesis
            proof (cases r3)
              case None
              then have "scrape_and_save e1 tr1 =
                  (None, tr1 @ (s3 @ evs3 @ [Log INFO Scraping_done])) \<and>
                scrape_and_save e2 tr2 = (None, tr2 @ (s3 @ evs3 @ [Log INFO Scraping_done]))"
                using f page Some p plist False d all_data s
                by (simp add: scrape_and_save_def s0_def s1_def s2_def s3_def)
              then show ?thesis by blast
            next
              case ex: (Some ex)
              then have "scrape_and_save e1 tr1 = (Some ex, tr1 @ (s3 @ evs3)) \<and>
                  scrape_and_save e2 tr2 = (Some ex, tr2 @ (s3 @ evs3))"
                using f page Some p plist False d all_data s
                by (simp add: scrape_and_save_def s0_def s1_def s2_def s3_def)
              then show ?thesis by blast
            qed
          qed
        qed
      qed
    qed
  qed
qed

text \<open>
  Witness of C9: on the example site a second run, started after the events of a first, emits
  the events of the first over again.
\<close>

theorem scrape_and_save_deterministic_witness:
  "scrape_and_save example_env [] = (None, example_run) \<and>
   (\<exists>r evs. scrape_and_save example_env [] = (r, [] @ evs) \<and>
      scrape_and_save example_env example_run = (r, example_run @ evs)) \<and>
   scrape_and_save example_env example_run = (None, example_run @ example_run)"
proof -
  have net: "requests_get example_env ([] @ s) u = requests_get example_env (example_run @ s) u"
    for s u
    by (simp add: example_env_def example_site_simps example_get_def)
  have disk: "workbook_save example_env ([] @ s) f = workbook_save example_env (example_run @ s) f"
    for s f
    by (simp add: example_env_def example_site_simps)
  have run: "scrape_and_save example_env [] = (None, example_run)"
    using example_scrape [of "[]"] by simp
  obtain r evs where 1: "scrape_and_save example_env [] = (r, [] @ evs)"
    and 2: "scrape_and_save example_env example_run = (r, example_run @ evs)"
    using scrape_and_save_deterministic [of example_env example_env "[]" example_run,
        OF refl refl net disk] by blast
  have "r = None" "evs = example_run"
    using 1 run by simp_all
  then show ?thesis
    using run 1 2 by blast
qed

subsection \<open>The station list\<close>

lemma split_from_not_Nil: "split_from sep acc s \<noteq> []"
  by (induction sep acc s rule: split_from.induct) auto

lemma split_from_count: "length (split_from [c] acc s) = Suc (count_list s c)"
  by (induction s arbitrary: acc) auto

lemma extract_property_stations:
  "extract_property unit = Inr p \<Longrightarrow> moyori_eki p \<noteq> []"
  by (auto simp: extract_property_def Let_def split_def split_from_not_Nil
      split: option.splits list.splits)

text \<open>
  Claim C10. \<^verbatim>\<open>split\<close> never returns the empty list; on the ideographic comma it returns
  one piece more than the text has such commas; and every record that
  \<open>parse_search_results\<close> returns has a non-empty station list.
\<close>

theorem stations_never_empty:
  "split s sep \<noteq> [] \<and> length (split s TOUTEN) = Suc (count_list s 12289) \<and>
   (fst (parse_search_results e html tr) = Inr data \<longrightarrow> (\<forall>p \<in> set data. moyori_eki p \<noteq> []))"
proof (intro conjI impI ballI)
  show "split s sep \<noteq> []"
    by (simp add: split_def split_from_not_Nil)
  show "length (split s TOUTEN) = Suc (count_list s 12289)"
    by (simp add: split_def TOUTEN_def split_from_count)
next
  fix p
  assume a: "fst (parse_search_results e html tr) = Inr data" and p: "p \<in> set data"
  obtain tr' where "parse_search_results e html tr = (Inr data, tr')"
    using a by (cases "parse_search_results e html tr") simp
  then obtain unit where "extract_property unit = Inr p"
    using parse_search_results_extracted p by blast
  then show "moyori_eki p \<noteq> []"
    by (rule extract_property_stations)
qed

text \<open>
  Witness of C10: the records of the example index; the station text of A has one comma and
  two stations, and the empty text splits into one empty piece.
\<close>

theorem stations_never_empty_witness:
  "fst (parse_search_results example_env (str ''index'') []) =
     Inr [info_a, info_b, info_c, info_d] \<and>
   moyori_eki info_a \<noteq> [] \<and> moyori_eki info_b \<noteq> [] \<and> moyori_eki info_c \<noteq> [] \<and>
   moyori_eki info_d \<noteq> [] \<and>
   moyori_eki info_a = [str ''Shibuya 5'', str ''Ebisu 9''] \<and>
   length (split (str ''Shibuya 5'' @ TOUTEN @ str '' Ebisu 9'') TOUTEN) = 2 \<and>
   split [] TOUTEN = [[]]"
proof -
  have h: "fst (parse_search_results example_env (str ''index'') []) =
      Inr [info_a, info_b, info_c, info_d]"
    by (simp add: parse_index [of example_get, folded example_env_def])
  note t = stations_never_empty [of "[]" TOUTEN example_env "str ''index''" "[]"
      "[info_a, info_b, info_c, info_d]", THEN conjunct2]
  have "\<forall>p \<in> set [info_a, info_b, info_c, info_d]. moyori_eki p \<noteq> []"
    using t [THEN conjunct2, THEN mp, OF h] .
  then have "moyori_eki info_a \<noteq> [] \<and> moyori_eki info_b \<noteq> [] \<and> moyori_eki info_c \<noteq> [] \<and>
      moyori_eki info_d \<noteq> []"
    by simp
  moreover have "length (split (str ''Shibuya 5'' @ TOUTEN @ str '' Ebisu 9'') TOUTEN) = 2"
    using stations_never_empty [of "str ''Shibuya 5'' @ TOUTEN @ str '' Ebisu 9''" TOUTEN
        example_env "[]" "[]" "[]", THEN conjunct2, THEN conjunct1]
    by (simp add: TOUTEN_def str_Nil str_Cons)
  moreover have "split [] TOUTEN = [[]]"
    by (simp add: split_def)
  ultimately show ?thesis
    using h by (simp add: info_a_def)
qed


end
